theory Spec2Isabelle
  imports Main "HOL-Library.Word" "HOL-Library.Finite_Map"
begin

section \<open>Currency\<close>

text \<open>
  \<open>types.Currency\<close> wraps a non-negative \<open>big.Int\<close>: an unbounded natural number.
  The package \<open>types\<close> is not among the sources; \<open>Add\<close>, \<open>Mul\<close>, \<open>Mul64\<close>,
  \<open>Div\<close>, \<open>Div64\<close>, \<open>Cmp\<close> and \<open>IsZero\<close> are the arithmetic of \<open>nat\<close>
  (\<open>Div\<close> is \<open>big.Int.Div\<close>, which rounds down on non-negative operands).
\<close>

type_synonym Currency = nat

type_synonym uint64 = "64 word"

definition Mul64 :: "Currency \<Rightarrow> uint64 \<Rightarrow> Currency" where
  "Mul64 c x = c * unat x"

definition Div64 :: "Currency \<Rightarrow> uint64 \<Rightarrow> Currency" where
  "Div64 c x = c div unat x"

text \<open>
  Modelled from the spec: \<open>Currency.MulTax\<close> is in the missing package \<open>types\<close>. The spec
  calls it a fixed-denominator multiply by the tax rate; the rate itself is not given, so
  it is a parameter \<open>(numerator, denominator)\<close>, and the product is rounded down as every
  other Currency division is.
\<close>

definition MulTax :: "nat \<times> nat \<Rightarrow> Currency \<Rightarrow> Currency" where
  "MulTax rate c = (c * fst rate) div snd rate"

text \<open>
  Modelled from the spec: \<open>Currency.Sub\<close> is in the missing package \<open>types\<close>. A Currency
  is never negative, so the difference stops at zero.
\<close>

definition Sub :: "Currency \<Rightarrow> Currency \<Rightarrow> Currency" where
  "Sub x y = x - y"

section \<open>Host entries and their weight\<close>

type_synonym NetAddress = string

record SiaPublicKey =
  Algorithm :: string
  Key :: "8 word list"

text \<open>The fields of \<open>modules.HostExternalSettings\<close> that the host database reads.\<close>

record HostExternalSettings =
  NetAddress :: NetAddress
  PublicKey :: SiaPublicKey
  StoragePrice :: Currency
  ContractPrice :: Currency
  UploadBandwidthPrice :: Currency
  DownloadBandwidthPrice :: Currency
  Collateral :: Currency

record hostEntry =
  Settings :: HostExternalSettings
  Weight :: Currency
  Reliability :: Currency
  Online :: bool

definition baseWeight :: Currency where
  "baseWeight = 10 ^ 150"

definition adjustedPrices :: "hostEntry \<Rightarrow> Currency" where
  "adjustedPrices entry =
     Div64 (Div64 (ContractPrice (Settings entry)) 6048) 10000000000
     + Div64 (UploadBandwidthPrice (Settings entry)) 24192
     + Div64 (DownloadBandwidthPrice (Settings entry)) 12096"

definition totalPrice :: "nat \<times> nat \<Rightarrow> hostEntry \<Rightarrow> Currency" where
  "totalPrice rate entry =
     (let adjustedContractPrice = Div64 (Div64 (ContractPrice (Settings entry)) 6048) 10000000000;
          adjustedUploadPrice = Div64 (UploadBandwidthPrice (Settings entry)) 24192;
          adjustedDownloadPrice = Div64 (DownloadBandwidthPrice (Settings entry)) 12096;
          siafundFee = MulTax rate (adjustedContractPrice + adjustedUploadPrice
                         + adjustedDownloadPrice + Collateral (Settings entry))
      in StoragePrice (Settings entry) + adjustedContractPrice + adjustedUploadPrice
           + adjustedDownloadPrice + siafundFee)"

definition calculateHostWeight :: "nat \<times> nat \<Rightarrow> hostEntry \<Rightarrow> Currency" where
  "calculateHostWeight rate entry =
     (let total = totalPrice rate entry;
          weight = (if total \<noteq> 0
                    then ((((baseWeight div total) div total) div total) div total) div total
                    else baseWeight)
      in if Collateral (Settings entry) = 0 then weight
         else weight * Collateral (Settings entry))"

text \<open>Two entries that differ in nothing but the collateral.\<close>

definition withCollateral :: "hostEntry \<Rightarrow> Currency \<Rightarrow> hostEntry" where
  "withCollateral entry c = entry\<lparr>Settings := (Settings entry)\<lparr>Collateral := c\<rparr>\<rparr>"

definition exampleEntry :: hostEntry where
  "exampleEntry =
     \<lparr>Settings = \<lparr>NetAddress = ''host:1'', PublicKey = \<lparr>Algorithm = ''ed25519'', Key = []\<rparr>,
                  StoragePrice = 0, ContractPrice = 0, UploadBandwidthPrice = 362880,
                  DownloadBandwidthPrice = 0, Collateral = 0\<rparr>,
      Weight = 0, Reliability = 150, Online = False\<rparr>"

section \<open>The host database after a scan\<close>

text \<open>
  The database holds pointers to host entries: \<open>allHosts\<close> maps an address to a
  \<open>*hostEntry\<close>, \<open>activeHosts\<close> maps an address to the tree node of an entry. A pointer
  is a reference into a store of entries, so that two maps (and the scanner's queue) can
  share one entry and see each other's writes. The weighted tree itself (\<open>removeNode\<close>,
  the nodes' weights) is not among the sources; a node is identified with the entry it
  points to. Go maps are finite, hence \<open>fmap\<close>. \<open>hdb.save()\<close> writes the database to
  disk and leaves the state in memory as it is.
\<close>

type_synonym ref = nat

record HostDB =
  allHosts :: "(NetAddress, ref) fmap"
  activeHosts :: "(NetAddress, ref) fmap"
  store :: "ref \<Rightarrow> hostEntry"

definition maxActiveHosts :: nat where
  "maxActiveHosts = 500"

definition MaxReliability :: Currency where
  "MaxReliability = 500"

definition DefaultReliability :: Currency where
  "DefaultReliability = 150"

definition UnreachablePenalty :: Currency where
  "UnreachablePenalty = 1"

definition decrementReliability :: "HostDB \<Rightarrow> NetAddress \<Rightarrow> Currency \<Rightarrow> HostDB" where
  "decrementReliability hdb addr penalty =
     (case fmlookup (allHosts hdb) addr of
        None \<Rightarrow> hdb
      | Some entry \<Rightarrow>
          (let old = store hdb entry;
               new = old\<lparr>Reliability := Sub (Reliability old) penalty, Online := False\<rparr>;
               active = (case fmlookup (activeHosts hdb) addr of
                           Some node \<Rightarrow> fmdrop (NetAddress (Settings new)) (activeHosts hdb)
                         | None \<Rightarrow> activeHosts hdb);
               every = (if Reliability new = 0 then fmdrop addr (allHosts hdb)
                        else allHosts hdb)
           in \<lparr>allHosts = every, activeHosts = active, store = (store hdb)(entry := new)\<rparr>))"

text \<open>
  Modelled from the spec: \<open>insertNode\<close> is not among the sources. A successful probe
  re-inserts the entry into the active tree: the entry's node is put into \<open>activeHosts\<close>
  under the entry's address.
\<close>

definition insertNode :: "HostDB \<Rightarrow> ref \<Rightarrow> HostDB" where
  "insertNode hdb entry =
     hdb\<lparr>activeHosts := fmupd (NetAddress (Settings (store hdb entry))) entry (activeHosts hdb)\<rparr>"

text \<open>
  The four assignments of a successful probe: the new settings under the old address,
  full reliability, the weight of the entry as it then is, and the online flag.
\<close>

definition refreshEntry :: "nat \<times> nat \<Rightarrow> hostEntry \<Rightarrow> HostExternalSettings \<Rightarrow> hostEntry" where
  "refreshEntry rate e0 newSettings =
     (let e1 = e0\<lparr>Settings := newSettings\<lparr>NetAddress := NetAddress (Settings e0)\<rparr>\<rparr>;
          e2 = e1\<lparr>Reliability := MaxReliability\<rparr>;
          e3 = e2\<lparr>Weight := calculateHostWeight rate e2\<rparr>
      in e3\<lparr>Online := True\<rparr>)"

text \<open>\<open>netErr\<close> is the probe's error: \<open>None\<close> is Go's \<open>nil\<close>.\<close>

definition managedUpdateEntry ::
  "nat \<times> nat \<Rightarrow> HostDB \<Rightarrow> ref \<Rightarrow> HostExternalSettings \<Rightarrow> string option \<Rightarrow> HostDB" where
  "managedUpdateEntry rate hdb entry newSettings netErr =
     (let addr = NetAddress (Settings (store hdb entry));
          priorHost = fmlookup (allHosts hdb) addr;
          hdb1 = (if priorHost = None then hdb\<lparr>allHosts := fmupd addr entry (allHosts hdb)\<rparr>
                  else hdb)
      in if netErr \<noteq> None then
           (case priorHost of
              Some prior \<Rightarrow>
                if Key (PublicKey (Settings (store hdb1 prior)))
                     = Key (PublicKey (Settings (store hdb1 entry)))
                then decrementReliability hdb1 addr UnreachablePenalty
                else hdb1
            | None \<Rightarrow> hdb1)
         else
           (let active = (case fmlookup (activeHosts hdb1) addr of
                            Some existingNode \<Rightarrow> fmdrop addr (activeHosts hdb1)
                          | None \<Rightarrow> activeHosts hdb1);
                refreshed = refreshEntry rate (store hdb1 entry) newSettings;
                hdb2 = hdb1\<lparr>activeHosts := active, store := (store hdb1)(entry := refreshed)\<rparr>
            in if fmlookup (activeHosts hdb2) (NetAddress (Settings refreshed)) \<noteq> None
                  \<or> fcard (fmdom (activeHosts hdb2)) < maxActiveHosts
               then insertNode hdb2 entry
               else hdb2))"

text \<open>
  The state invariant of the host database: every entry kept in \<open>allHosts\<close> is filed
  under its own address and has a positive reliability, and \<open>activeHosts\<close> holds at most
  \<open>maxActiveHosts\<close> nodes.
\<close>

definition allHostsOk :: "HostDB \<Rightarrow> bool" where
  "allHostsOk hdb =
     fmpred (\<lambda>addr entry. NetAddress (Settings (store hdb entry)) = addr
                           \<and> 0 < Reliability (store hdb entry)) (allHosts hdb)"

definition activeHostsOk :: "HostDB \<Rightarrow> bool" where
  "activeHostsOk hdb = (fcard (fmdom (activeHosts hdb)) \<le> maxActiveHosts)"

definition scanEntry :: hostEntry where
  "scanEntry = exampleEntry\<lparr>Reliability := 1\<rparr>"

definition scanDB :: HostDB where
  "scanDB = \<lparr>allHosts = fmupd ''host:1'' 0 fmempty,
             activeHosts = fmupd ''host:1'' 0 fmempty,
             store = (\<lambda>_. scanEntry)\<rparr>"

definition emptyDB :: HostDB where
  "emptyDB = \<lparr>allHosts = fmempty, activeHosts = fmempty, store = (\<lambda>_. scanEntry)\<rparr>"

section \<open>Balance of coin inputs and outputs\<close>

text \<open>
  The parts of a transaction that \<open>ValidateCoinOutputsAreBalanced\<close> reads. An
  identifier is a 32-byte hash; \<open>tx.ID()\<close> is the field \<open>txID\<close>. The consensus state is
  the map behind \<open>UnspentCoinOutputGet\<close>: an address it does not hold is a lookup error.
\<close>

type_synonym Hash = "256 word"

type_synonym BlockHeight = uint64

record CoinInput =
  ciParentID :: Hash

record CoinOutput =
  coValue :: Currency

record CoinTransaction =
  txID :: Hash
  CoinInputs :: "CoinInput list"
  CoinOutputs :: "CoinOutput list"
  MinerFees :: "Currency list"

text \<open>The validation context is read for its block height.\<close>

record TransactionCreationValidationContext =
  ctxBlockHeight :: BlockHeight

datatype balanceError =
    ParentNotFound Hash BlockHeight
  | InputsLessThanOutputs Currency Hash Currency
  | InputsGreaterThanOutputs Currency Hash Currency

text \<open>
  Modelled from the spec: \<open>Transaction.CoinOutputSum\<close> is in the missing package
  \<open>types\<close>; it adds up the miner fees and all coin outputs.
\<close>

definition CoinOutputSum :: "CoinTransaction \<Rightarrow> Currency" where
  "CoinOutputSum tx = sum_list (MinerFees tx) + sum_list (map coValue (CoinOutputs tx))"

fun collectCoinInputs ::
  "(Hash \<rightharpoonup> CoinOutput) \<Rightarrow> BlockHeight \<Rightarrow> CoinInput list \<Rightarrow> Currency \<Rightarrow> balanceError + Currency" where
  "collectCoinInputs css height [] coinInputSum = Inr coinInputSum"
| "collectCoinInputs css height (ci # cis) coinInputSum =
     (case css (ciParentID ci) of
        None \<Rightarrow> Inl (ParentNotFound (ciParentID ci) height)
      | Some co \<Rightarrow> collectCoinInputs css height cis (coinInputSum + coValue co))"

definition ValidateCoinOutputsAreBalanced ::
  "CoinTransaction \<Rightarrow> TransactionCreationValidationContext \<Rightarrow> (Hash \<rightharpoonup> CoinOutput)
     \<Rightarrow> balanceError option" where
  "ValidateCoinOutputsAreBalanced tx ctx css =
     (case collectCoinInputs css (ctxBlockHeight ctx) (CoinInputs tx) 0 of
        Inl e \<Rightarrow> Some e
      | Inr coinInputSum \<Rightarrow>
          (let coinOutputSum = CoinOutputSum tx
           in if coinInputSum < coinOutputSum
              then Some (InputsLessThanOutputs coinInputSum (txID tx) coinOutputSum)
              else if coinInputSum > coinOutputSum
              then Some (InputsGreaterThanOutputs coinInputSum (txID tx) coinOutputSum)
              else None))"

text \<open>The spec's side: which inputs resolve, and what they add up to.\<close>

definition resolves :: "(Hash \<rightharpoonup> CoinOutput) \<Rightarrow> CoinInput \<Rightarrow> bool" where
  "resolves css ci = (css (ciParentID ci) \<noteq> None)"

definition resolvedValue :: "(Hash \<rightharpoonup> CoinOutput) \<Rightarrow> CoinInput \<Rightarrow> Currency" where
  "resolvedValue css ci = (case css (ciParentID ci) of None \<Rightarrow> 0 | Some co \<Rightarrow> coValue co)"

definition resolvedInputSum :: "(Hash \<rightharpoonup> CoinOutput) \<Rightarrow> CoinTransaction \<Rightarrow> Currency" where
  "resolvedInputSum css tx = sum_list (map (resolvedValue css) (CoinInputs tx))"

definition balancedTx :: CoinTransaction where
  "balancedTx = \<lparr>txID = 7, CoinInputs = [\<lparr>ciParentID = 1\<rparr>],
                 CoinOutputs = [\<lparr>coValue = 90\<rparr>], MinerFees = [10]\<rparr>"

definition oneOutput :: "Hash \<rightharpoonup> CoinOutput" where
  "oneOutput = [1 \<mapsto> \<lparr>coValue = 100\<rparr>]"

definition missingTx :: CoinTransaction where
  "missingTx = balancedTx\<lparr>CoinInputs := [\<lparr>ciParentID = 1\<rparr>, \<lparr>ciParentID = 2\<rparr>, \<lparr>ciParentID = 3\<rparr>]\<rparr>"

section \<open>Revising a file contract\<close>

subsection \<open>Errors and outcomes\<close>

text \<open>
  The negotiation errors of the host are sentinels; connection and internal errors carry
  a message; \<open>Extended\<close> is an error with one more prefix in front.
\<close>

datatype error =
    errBadModificationIndex
  | errLargeSector
  | errBadSectorSize
  | errIllegalOffsetAndLength
  | errUnknownModification
  | errBadContractOutputCounts
  | errLateRevision
  | errBadContractParent
  | errBadUnlockConditions
  | errBadRevisionNumber
  | errBadFileSize
  | errBadWindowStart
  | errBadWindowEnd
  | errBadUnlockHash
  | errHighRenterValidOutput
  | errLowHostValidOutput
  | errHighRenterMissedOutput
  | errLowHostMissedOutput
  | errBadFileMerkleRoot
  | ErrorConnection string
  | ErrorInternal string
  | ErrorOther string
  | Extended string error

text \<open>
  Modelled from the spec: \<open>extendErr\<close> is not among the sources. It puts a prefix
  that names the phase in front of the cause, which stays what it was; \<open>nil\<close> stays
  \<open>nil\<close>.
\<close>

definition extendErr :: "string \<Rightarrow> error option \<Rightarrow> error option" where
  "extendErr s err = (case err of None \<Rightarrow> None | Some e \<Rightarrow> Some (Extended s e))"

text \<open>
  A Go function returns, panics (an index out of range) or does not come back.
\<close>

datatype 'a outcome = Returns 'a | Panics | Diverges

subsection \<open>Data\<close>

type_synonym bytes = "8 word list"

record SiacoinOutput =
  Value :: Currency
  UnlockHash :: Hash

text \<open>
  The unlock conditions are a value of some type \<open>'uc\<close>; only their hash is read.
\<close>

record 'uc FileContractRevision =
  ParentID :: Hash
  UnlockConditions :: 'uc
  NewRevisionNumber :: uint64
  NewFileSize :: uint64
  NewFileMerkleRoot :: Hash
  NewWindowStart :: BlockHeight
  NewWindowEnd :: BlockHeight
  NewValidProofOutputs :: "SiacoinOutput list"
  NewMissedProofOutputs :: "SiacoinOutput list"
  NewUnlockHash :: Hash

record 'uc Transaction =
  FileContractRevisions :: "'uc FileContractRevision list"
  TransactionSignatures :: "bytes list"

record 'uc storageObligation =
  SectorRoots :: "Hash list"
  PotentialStorageRevenue :: Currency
  RiskedCollateral :: Currency
  PotentialUploadRevenue :: Currency
  RevisionTransactionSet :: "'uc Transaction list"

datatype ActionType = ActionDelete | ActionInsert | ActionModify | ActionOther string

record RevisionAction =
  Type :: ActionType
  SectorIndex :: uint64
  Offset :: uint64
  Data :: bytes

text \<open>The host's settings that the revision reads (\<open>hostCollateral\<close> is \<open>Collateral\<close>).\<close>

record HostInternalSettings =
  MinUploadBandwidthPrice :: Currency
  MinStoragePrice :: Currency
  hostCollateral :: Currency

text \<open>What the iteration reads from the host under the read lock.\<close>

record hostSnapshot =
  settings :: HostInternalSettings
  secretKey :: bytes
  blockHeight :: BlockHeight

text \<open>
  Constants and functions of packages that are not among the sources, as parameters:
  the constants \<open>modules.SectorSize\<close>, \<open>crypto.SegmentSize\<close> and
  \<open>revisionSubmissionBuffer\<close>; the obligation's methods \<open>expiration\<close> and
  \<open>proofDeadline\<close>; the hash of unlock conditions; \<open>crypto.MerkleRoot\<close>; the root of
  a cached tree of a given height after pushing a list of roots; the host's
  \<open>ReadSector\<close>; and \<open>createRevisionSignature\<close>.
\<close>

record 'uc externals =
  SectorSize :: uint64
  SegmentSize :: uint64
  revisionSubmissionBuffer :: BlockHeight
  expiration :: "'uc storageObligation \<Rightarrow> BlockHeight"
  proofDeadline :: "'uc storageObligation \<Rightarrow> BlockHeight"
  UnlockConditionsHash :: "'uc \<Rightarrow> Hash"
  MerkleRoot :: "bytes \<Rightarrow> Hash"
  CachedTreeRoot :: "uint64 \<Rightarrow> Hash list \<Rightarrow> Hash"
  ReadSector :: "Hash \<Rightarrow> string + bytes"
  createRevisionSignature ::
    "'uc FileContractRevision \<Rightarrow> bytes \<Rightarrow> bytes \<Rightarrow> BlockHeight \<Rightarrow> error + 'uc Transaction"

subsection \<open>verifyRevision\<close>

text \<open>
  \<open>so.RevisionTransactionSet[len - 1].FileContractRevisions[0]\<close>: \<open>None\<close> is the panic of
  an index out of range.
\<close>

definition oldRevision :: "'uc storageObligation \<Rightarrow> 'uc FileContractRevision option" where
  "oldRevision so =
     (if RevisionTransactionSet so = [] then None
      else case FileContractRevisions (last (RevisionTransactionSet so)) of
             [] \<Rightarrow> None
           | fcr # _ \<Rightarrow> Some fcr)"

definition outputValue :: "SiacoinOutput list \<Rightarrow> nat \<Rightarrow> Currency option" where
  "outputValue outputs i = (if i < length outputs then Some (Value (outputs ! i)) else None)"

text \<open>
  The four payment checks. The proposed revision has two valid and three missed outputs
  when they run, the old revision is indexed as it is.
\<close>

definition checkPayments ::
  "'uc FileContractRevision \<Rightarrow> 'uc FileContractRevision \<Rightarrow> Currency \<Rightarrow> Currency
     \<Rightarrow> error option outcome" where
  "checkPayments oldFCR revision newRevenue newCollateral =
     (case (outputValue (NewValidProofOutputs revision) 0, outputValue (NewValidProofOutputs oldFCR) 0) of
        (Some newRenterValid, Some oldRenterValid) \<Rightarrow>
          if newRenterValid + newRevenue > oldRenterValid then Returns (Some errHighRenterValidOutput)
          else
          (case (outputValue (NewValidProofOutputs oldFCR) 1, outputValue (NewValidProofOutputs revision) 1) of
             (Some oldHostValid, Some newHostValid) \<Rightarrow>
               if oldHostValid + newRevenue < newHostValid then Returns (Some errLowHostValidOutput)
               else
               (case (outputValue (NewMissedProofOutputs revision) 0, outputValue (NewMissedProofOutputs oldFCR) 0) of
                  (Some newRenterMissed, Some oldRenterMissed) \<Rightarrow>
                    if newRenterMissed + newRevenue > oldRenterMissed
                    then Returns (Some errHighRenterMissedOutput)
                    else
                    (case (outputValue (NewMissedProofOutputs revision) 1, outputValue (NewMissedProofOutputs oldFCR) 1) of
                       (Some newHostMissed, Some oldHostMissed) \<Rightarrow>
                         if newHostMissed + newCollateral < oldHostMissed
                         then Returns (Some errLowHostMissedOutput)
                         else Returns None
                     | _ \<Rightarrow> Panics)
                | _ \<Rightarrow> Panics)
           | _ \<Rightarrow> Panics)
      | _ \<Rightarrow> Panics)"

text \<open>
  \<open>for 1<<log2SectorSize < SectorSize/SegmentSize { log2SectorSize++ }\<close> on \<open>uint64\<close>:
  a shift by 64 or more gives 0. The loop either leaves within 64 rounds or never does,
  so the fuel 65 of \<open>log2SectorSize\<close> decides it: \<open>None\<close> is the loop that runs forever.
\<close>

fun log2Loop :: "nat \<Rightarrow> uint64 \<Rightarrow> uint64 \<Rightarrow> uint64 option" where
  "log2Loop 0 ratio k = None"
| "log2Loop (Suc fuel) ratio k =
     (if push_bit (unat k) (1 :: uint64) < ratio then log2Loop fuel ratio (k + 1) else Some k)"

definition log2SectorSize :: "'uc externals \<Rightarrow> uint64 option" where
  "log2SectorSize ext = log2Loop 65 (SectorSize ext div SegmentSize ext) 0"

definition checkMerkleRoot ::
  "'uc externals \<Rightarrow> 'uc storageObligation \<Rightarrow> 'uc FileContractRevision \<Rightarrow> error option outcome" where
  "checkMerkleRoot ext so revision =
     (if SegmentSize ext = 0 then Panics
      else case log2SectorSize ext of
             None \<Rightarrow> Diverges
           | Some height \<Rightarrow>
               if NewFileMerkleRoot revision \<noteq> CachedTreeRoot ext height (SectorRoots so)
               then Returns (Some errBadFileMerkleRoot)
               else Returns None)"

text \<open>The payment checks, and the Merkle root when they have passed.\<close>

definition paymentsThenRoot ::
  "'uc externals \<Rightarrow> 'uc storageObligation \<Rightarrow> 'uc FileContractRevision
     \<Rightarrow> 'uc FileContractRevision \<Rightarrow> Currency \<Rightarrow> Currency \<Rightarrow> error option outcome" where
  "paymentsThenRoot ext so oldFCR revision newRevenue newCollateral =
     (case checkPayments oldFCR revision newRevenue newCollateral of
        Returns None \<Rightarrow> checkMerkleRoot ext so revision
      | other \<Rightarrow> other)"

definition verifyRevision ::
  "'uc externals \<Rightarrow> 'uc storageObligation \<Rightarrow> 'uc FileContractRevision \<Rightarrow> BlockHeight
     \<Rightarrow> Currency \<Rightarrow> Currency \<Rightarrow> error option outcome" where
  "verifyRevision ext so revision height newRevenue newCollateral =
     (if length (NewValidProofOutputs revision) \<noteq> 2 \<or> length (NewMissedProofOutputs revision) \<noteq> 3
      then Returns (Some errBadContractOutputCounts)
      else if expiration ext so - revisionSubmissionBuffer ext \<le> height
      then Returns (Some errLateRevision)
      else case oldRevision so of
        None \<Rightarrow> Panics
      | Some oldFCR \<Rightarrow>
          if ParentID oldFCR \<noteq> ParentID revision then Returns (Some errBadContractParent)
          else if UnlockConditionsHash ext (UnlockConditions oldFCR)
                    \<noteq> UnlockConditionsHash ext (UnlockConditions revision)
          then Returns (Some errBadUnlockConditions)
          else if NewRevisionNumber oldFCR \<ge> NewRevisionNumber revision
          then Returns (Some errBadRevisionNumber)
          else if NewFileSize revision \<noteq> of_nat (length (SectorRoots so)) * SectorSize ext
          then Returns (Some errBadFileSize)
          else if NewWindowStart oldFCR \<noteq> NewWindowStart revision
          then Returns (Some errBadWindowStart)
          else if NewWindowEnd oldFCR \<noteq> NewWindowEnd revision
          then Returns (Some errBadWindowEnd)
          else if NewUnlockHash oldFCR \<noteq> NewUnlockHash revision
          then Returns (Some errBadUnlockHash)
          else paymentsThenRoot ext so oldFCR revision newRevenue newCollateral)"

subsection \<open>One iteration of the revision loop\<close>

text \<open>The variables that the iteration declares before it applies the modifications.\<close>

record revisionWork =
  bandwidthRevenue :: Currency
  storageRevenue :: Currency
  newCollateral :: Currency
  sectorsRemoved :: "Hash list"
  sectorsGained :: "Hash list"
  gainedSectorData :: "bytes list"

definition noWork :: revisionWork where
  "noWork = \<lparr>bandwidthRevenue = 0, storageRevenue = 0, newCollateral = 0,
             sectorsRemoved = [], sectorsGained = [], gainedSectorData = []\<rparr>"

text \<open>
  \<open>copy(sector[offset:], data)\<close> writes as many bytes as fit into the rest of the sector.
\<close>

definition copyInto :: "bytes \<Rightarrow> nat \<Rightarrow> bytes \<Rightarrow> bytes" where
  "copyInto sector offset d =
     take offset sector @ take (length sector - offset) d
       @ drop (offset + min (length sector - offset) (length d)) sector"

text \<open>
  The body of the loop over the modifications, on the obligation and the variables above.
  An error leaves both as they are. Lengths are Go's \<open>int\<close>, which \<open>uint64\<close> holds
  exactly, so they are compared as numbers; sums of \<open>uint64\<close> wrap around.
\<close>

definition applyModification ::
  "'uc externals \<Rightarrow> HostInternalSettings \<Rightarrow> BlockHeight \<Rightarrow> RevisionAction
     \<Rightarrow> 'uc storageObligation \<times> revisionWork
     \<Rightarrow> (error + 'uc storageObligation \<times> revisionWork) outcome" where
  "applyModification ext hs height modification sw =
     (case sw of (so, w) \<Rightarrow>
       let roots = SectorRoots so; i = unat (SectorIndex modification) in
       if (if Type modification = ActionInsert then i > length roots else i \<ge> length roots)
       then Returns (Inl errBadModificationIndex)
       else if length (Data modification) > unat (SectorSize ext)
       then Returns (Inl errLargeSector)
       else
         (case Type modification of
            ActionDelete \<Rightarrow>
              Returns (Inr (so\<lparr>SectorRoots := take i roots @ drop (i + 1) roots\<rparr>,
                            w\<lparr>sectorsRemoved := sectorsRemoved w @ [roots ! i]\<rparr>))
          | ActionInsert \<Rightarrow>
              if length (Data modification) \<noteq> unat (SectorSize ext)
              then Returns (Inl errBadSectorSize)
              else
                (let blocksRemaining = proofDeadline ext so - height;
                     blockBytesCurrency = Mul64 (unat blocksRemaining) (SectorSize ext);
                     newRoot = MerkleRoot ext (Data modification)
                 in Returns (Inr
                      (so\<lparr>SectorRoots := take i roots @ [newRoot] @ drop i roots\<rparr>,
                       w\<lparr>bandwidthRevenue := bandwidthRevenue w
                                               + Mul64 (MinUploadBandwidthPrice hs) (SectorSize ext),
                         storageRevenue := storageRevenue w + MinStoragePrice hs * blockBytesCurrency,
                         newCollateral := newCollateral w + hostCollateral hs * blockBytesCurrency,
                         sectorsGained := sectorsGained w @ [newRoot],
                         gainedSectorData := gainedSectorData w @ [Data modification]\<rparr>)))
          | ActionModify \<Rightarrow>
              if Offset modification > SectorSize ext
                 \<or> Offset modification + of_nat (length (Data modification)) > SectorSize ext
              then Returns (Inl errIllegalOffsetAndLength)
              else
                (case ReadSector ext (roots ! i) of
                   Inl msg \<Rightarrow> Returns (Inl (Extended ''could not read sector: '' (ErrorInternal msg)))
                 | Inr sector \<Rightarrow>
                     if unat (Offset modification) > length sector then Panics
                     else
                       (let sector' = copyInto sector (unat (Offset modification)) (Data modification);
                            newRoot = MerkleRoot ext sector'
                        in Returns (Inr
                             (so\<lparr>SectorRoots := roots[i := newRoot]\<rparr>,
                              w\<lparr>bandwidthRevenue := bandwidthRevenue w
                                     + Mul64 (MinUploadBandwidthPrice hs)
                                         (of_nat (length (Data modification))),
                                sectorsRemoved := sectorsRemoved w @ [roots ! i],
                                sectorsGained := sectorsGained w @ [newRoot],
                                gainedSectorData := gainedSectorData w @ [sector']\<rparr>))))
          | ActionOther name \<Rightarrow> Returns (Inl errUnknownModification)))"

text \<open>
  The loop stops at the first error; what the earlier modifications have done to the
  obligation and the variables stays.
\<close>

fun modificationLoop ::
  "'uc externals \<Rightarrow> HostInternalSettings \<Rightarrow> BlockHeight \<Rightarrow> RevisionAction list
     \<Rightarrow> 'uc storageObligation \<times> revisionWork
     \<Rightarrow> (error option \<times> 'uc storageObligation \<times> revisionWork) outcome" where
  "modificationLoop ext hs height [] sw = Returns (None, sw)"
| "modificationLoop ext hs height (modification # rest) sw =
     (case applyModification ext hs height modification sw of
        Returns (Inl e) \<Rightarrow> Returns (Some e, sw)
      | Returns (Inr sw') \<Rightarrow> modificationLoop ext hs height rest sw'
      | Panics \<Rightarrow> Panics
      | Diverges \<Rightarrow> Diverges)"

text \<open>The function literal of the iteration: the loop, then \<open>verifyRevision\<close>.\<close>

definition applyAndVerify ::
  "'uc externals \<Rightarrow> HostInternalSettings \<Rightarrow> BlockHeight \<Rightarrow> RevisionAction list
     \<Rightarrow> 'uc FileContractRevision \<Rightarrow> 'uc storageObligation
     \<Rightarrow> (error option \<times> 'uc storageObligation \<times> revisionWork) outcome" where
  "applyAndVerify ext hs height modifications revision so =
     (case modificationLoop ext hs height modifications (so, noWork) of
        Returns (Some e, sw) \<Rightarrow> Returns (Some e, sw)
      | Returns (None, (so', w)) \<Rightarrow>
          (let newRevenue = storageRevenue w + bandwidthRevenue w
           in case verifyRevision ext so' revision height newRevenue (newCollateral w) of
                Returns r \<Rightarrow> Returns (extendErr ''unable to verify revision: '' r, (so', w))
              | Panics \<Rightarrow> Panics
              | Diverges \<Rightarrow> Diverges)
      | Panics \<Rightarrow> Panics
      | Diverges \<Rightarrow> Diverges)"

text \<open>
  What the renter and the disk answer during one iteration: the result of
  \<open>managedRPCSettings\<close> and of reading the acceptance, the two objects read, whether the
  acceptance can be written, the renter's signature, whether \<open>modifyStorageObligation\<close>
  fails, and whether the last two writes fail. An error of the connection is its message.
\<close>

record 'uc answers =
  settingsResult :: "error option"
  acceptanceResult :: "error option"
  modificationsRead :: "string + RevisionAction list"
  revisionRead :: "string + 'uc FileContractRevision"
  acceptanceWrite :: "string option"
  renterSigRead :: "string + bytes"
  modifyResult :: "string option"
  signalWrite :: "string option"
  signatureWrite :: "string option"

datatype message =
    SentSettings
  | NegotiationAcceptance
  | NegotiationRejection error
  | NegotiationStop
  | HostSignature bytes

text \<open>
  \<open>modifyStorageObligation\<close> is not among the sources. The durable store changes through
  it alone, so the durable state is the list of its calls that went through, each with
  the obligation and the sector lists it was given; a call that fails leaves the store
  as it was.
\<close>

record 'uc commit =
  committedObligation :: "'uc storageObligation"
  committedRemoved :: "Hash list"
  committedGained :: "Hash list"
  committedData :: "bytes list"

record 'uc revisionState =
  obligation :: "'uc storageObligation"
  commits :: "'uc commit list"
  sent :: "message list"

text \<open>After the revision is found acceptable: signatures and the commit.\<close>

definition signAndCommit ::
  "'uc externals \<Rightarrow> hostSnapshot \<Rightarrow> 'uc answers \<Rightarrow> 'uc FileContractRevision \<Rightarrow> revisionWork
     \<Rightarrow> bool \<Rightarrow> 'uc revisionState \<Rightarrow> (error option \<times> 'uc revisionState) outcome" where
  "signAndCommit ext host io revision w finalIter st =
     (case acceptanceWrite io of
        Some msg \<Rightarrow>
          Returns (extendErr ''could not accept revision modifications: ''
                     (Some (ErrorConnection msg)), st)
      | None \<Rightarrow>
     (let st1 = st\<lparr>sent := sent st @ [NegotiationAcceptance]\<rparr> in
      case renterSigRead io of
        Inl msg \<Rightarrow>
          Returns (extendErr ''could not read renter transaction signature: ''
                     (Some (ErrorConnection msg)), st1)
      | Inr renterSig \<Rightarrow>
     (case createRevisionSignature ext revision renterSig (secretKey host) (blockHeight host) of
        Inl e \<Rightarrow>
          Returns (extendErr ''could not create revision signature: '' (Some e),
                   st1\<lparr>sent := sent st1 @ [NegotiationRejection e]\<rparr>)
      | Inr txn \<Rightarrow>
     (let so = obligation st1;
          so1 = so\<lparr>PotentialStorageRevenue := PotentialStorageRevenue so + storageRevenue w\<rparr>;
          so2 = so1\<lparr>RiskedCollateral := RiskedCollateral so1 + newCollateral w\<rparr>;
          so3 = so2\<lparr>PotentialUploadRevenue := PotentialUploadRevenue so2 + bandwidthRevenue w\<rparr>;
          so4 = so3\<lparr>RevisionTransactionSet := [txn]\<rparr>;
          st2 = st1\<lparr>obligation := so4\<rparr>
      in case modifyResult io of
        Some msg \<Rightarrow>
          Returns (extendErr ''could not modify storage obligation: ''
                     (Some (ErrorInternal msg)),
                   st2\<lparr>sent := sent st2 @ [NegotiationRejection (ErrorOther msg)]\<rparr>)
      | None \<Rightarrow>
     (let st3 = st2\<lparr>commits := commits st2 @
                       [\<lparr>committedObligation = so4, committedRemoved = sectorsRemoved w,
                         committedGained = sectorsGained w,
                         committedData = gainedSectorData w\<rparr>]\<rparr>
      in case signalWrite io of
        Some msg \<Rightarrow>
          Returns (extendErr ''iteration signal failed to send: ''
                     (Some (ErrorConnection msg)), st3)
      | None \<Rightarrow>
     (let st4 = st3\<lparr>sent := sent st3
                        @ [if finalIter then NegotiationStop else NegotiationAcceptance]\<rparr>
      in if length (TransactionSignatures txn) \<le> 1 then Panics
         else case signatureWrite io of
           Some msg \<Rightarrow>
             Returns (extendErr ''failed to write revision signatures: ''
                        (Some (ErrorConnection msg)), st4)
         | None \<Rightarrow>
             Returns (None, st4\<lparr>sent := sent st4
                                  @ [HostSignature (TransactionSignatures txn ! 1)]\<rparr>)))))))"

definition managedRevisionIteration ::
  "'uc externals \<Rightarrow> hostSnapshot \<Rightarrow> 'uc answers \<Rightarrow> bool \<Rightarrow> 'uc revisionState
     \<Rightarrow> (error option \<times> 'uc revisionState) outcome" where
  "managedRevisionIteration ext host io finalIter st =
     (case settingsResult io of
        Some e \<Rightarrow> Returns (extendErr ''RPCSettings failed: '' (Some e), st)
      | None \<Rightarrow>
     (let st1 = st\<lparr>sent := sent st @ [SentSettings]\<rparr> in
      case acceptanceResult io of
        Some e \<Rightarrow> Returns (extendErr ''renter rejected settings: '' (Some e), st1)
      | None \<Rightarrow>
     (case modificationsRead io of
        Inl msg \<Rightarrow>
          Returns (extendErr ''unable to read revision modifications: ''
                     (Some (ErrorConnection msg)), st1)
      | Inr modifications \<Rightarrow>
     (case revisionRead io of
        Inl msg \<Rightarrow>
          Returns (extendErr ''unable to read proposed revision: ''
                     (Some (ErrorConnection msg)), st1)
      | Inr revision \<Rightarrow>
     (case applyAndVerify ext (settings host) (blockHeight host) modifications revision
             (obligation st1) of
        Panics \<Rightarrow> Panics
      | Diverges \<Rightarrow> Diverges
      | Returns (Some e, (so', w)) \<Rightarrow>
          Returns (extendErr ''rejected proposed modifications: '' (Some e),
                   st1\<lparr>obligation := so', sent := sent st1 @ [NegotiationRejection e]\<rparr>)
      | Returns (None, (so', w)) \<Rightarrow>
          signAndCommit ext host io revision w finalIter (st1\<lparr>obligation := so'\<rparr>))))))"

subsection \<open>The order of checks, as a list\<close>

text \<open>
  A list of checks, each a failure condition with its error, followed by what remains:
  the first failure wins.
\<close>

fun firstFailure :: "(bool \<times> error) list \<Rightarrow> error option outcome \<Rightarrow> error option outcome" where
  "firstFailure [] remaining = remaining"
| "firstFailure ((failed, e) # checks) remaining =
     (if failed then Returns (Some e) else firstFailure checks remaining)"

subsection \<open>A contract with no sectors and a revision that inserts one\<close>

text \<open>
  The scenario of the specification: sectors of 4096 bytes, segments of 64 bytes, a
  storage price of 2, an upload price of 3, a collateral of 1, and 100 blocks from the
  current height 200 to the proof deadline 300. The window starts at 250 and the buffer
  is 10 blocks, so the last height at which a revision is in time is 239.
\<close>

definition firstRevision :: "nat FileContractRevision" where
  "firstRevision =
     \<lparr>ParentID = 1, UnlockConditions = 5, NewRevisionNumber = 1, NewFileSize = 0,
      NewFileMerkleRoot = 0, NewWindowStart = 250, NewWindowEnd = 300,
      NewValidProofOutputs = [\<lparr>Value = 1000000, UnlockHash = 11\<rparr>, \<lparr>Value = 0, UnlockHash = 12\<rparr>],
      NewMissedProofOutputs = [\<lparr>Value = 1000000, UnlockHash = 11\<rparr>,
                               \<lparr>Value = 500000, UnlockHash = 12\<rparr>, \<lparr>Value = 0, UnlockHash = 0\<rparr>],
      NewUnlockHash = 9\<rparr>"

definition testObligation :: "nat storageObligation" where
  "testObligation =
     \<lparr>SectorRoots = [], PotentialStorageRevenue = 0, RiskedCollateral = 0,
      PotentialUploadRevenue = 0,
      RevisionTransactionSet = [\<lparr>FileContractRevisions = [firstRevision],
                                  TransactionSignatures = [[1], [2]]\<rparr>]\<rparr>"

definition testExternals :: "nat externals" where
  "testExternals =
     \<lparr>SectorSize = 4096, SegmentSize = 64, revisionSubmissionBuffer = 10,
      expiration = (\<lambda>so. case oldRevision so of Some r \<Rightarrow> NewWindowStart r | None \<Rightarrow> 0),
      proofDeadline = (\<lambda>so. case oldRevision so of Some r \<Rightarrow> NewWindowEnd r | None \<Rightarrow> 0),
      UnlockConditionsHash = of_nat,
      MerkleRoot = (\<lambda>d. 1 + of_nat (length d)),
      CachedTreeRoot = (\<lambda>height roots. sum_list roots),
      ReadSector = (\<lambda>root. Inl ''no such sector''),
      createRevisionSignature =
        (\<lambda>revision renterSig key height.
           Inr \<lparr>FileContractRevisions = [revision], TransactionSignatures = [renterSig, key]\<rparr>)\<rparr>"

definition testHost :: hostSnapshot where
  "testHost = \<lparr>settings = \<lparr>MinUploadBandwidthPrice = 3, MinStoragePrice = 2, hostCollateral = 1\<rparr>,
               secretKey = [7], blockHeight = 200\<rparr>"

definition insertZeroSector :: RevisionAction where
  "insertZeroSector =
     \<lparr>Type = ActionInsert, SectorIndex = 0, Offset = 0, Data = replicate 4096 0\<rparr>"

definition insertRevision :: "nat FileContractRevision" where
  "insertRevision =
     firstRevision
       \<lparr>NewRevisionNumber := 2, NewFileSize := 4096, NewFileMerkleRoot := 4097,
        NewValidProofOutputs := [\<lparr>Value = 168512, UnlockHash = 11\<rparr>,
                                 \<lparr>Value = 831488, UnlockHash = 12\<rparr>],
        NewMissedProofOutputs := [\<lparr>Value = 168512, UnlockHash = 11\<rparr>,
                                  \<lparr>Value = 90400, UnlockHash = 12\<rparr>,
                                  \<lparr>Value = 1241088, UnlockHash = 0\<rparr>]\<rparr>"

text \<open>A revision with the old revision number and another window start.\<close>

definition staleRevision :: "nat FileContractRevision" where
  "staleRevision = firstRevision\<lparr>NewWindowStart := 260\<rparr>"

definition testAnswers :: "nat answers" where
  "testAnswers =
     \<lparr>settingsResult = None, acceptanceResult = None,
      modificationsRead = Inr [insertZeroSector], revisionRead = Inr insertRevision,
      acceptanceWrite = None, renterSigRead = Inr [3], modifyResult = None,
      signalWrite = None, signatureWrite = None\<rparr>"

definition testState :: "nat revisionState" where
  "testState = \<lparr>obligation = testObligation, commits = [], sent = []\<rparr>"

text \<open>The renter proposes the stale revision, with no modification.\<close>

definition staleAnswers :: "nat answers" where
  "staleAnswers = testAnswers\<lparr>modificationsRead := Inr [], revisionRead := Inr staleRevision\<rparr>"

section \<open>The weight of a host\<close>

lemma totalPrice_withCollateral:
  "totalPrice rate (withCollateral entry c) =
     StoragePrice (Settings entry) + adjustedPrices entry
       + MulTax rate (adjustedPrices entry + c)"
  by (simp add: totalPrice_def withCollateral_def adjustedPrices_def Let_def)

lemma calculateHostWeight_withCollateral:
  "0 < c \<Longrightarrow> calculateHostWeight rate (withCollateral entry c) =
     (let total = totalPrice rate (withCollateral entry c)
      in (if total \<noteq> 0
          then ((((baseWeight div total) div total) div total) div total) div total
          else baseWeight) * c)"
  by (simp add: calculateHostWeight_def Let_def withCollateral_def)

text \<open>
  C6 (as the code has it). The siafund fee is charged on the collateral too, so the total
  price depends on the collateral. For two entries with the same prices and collateral 10
  and 20, the second has exactly twice the weight of the first whenever the fee of the two
  is the same, which is what makes their total prices equal; the weight of each is the
  base weight divided five times by its own total price, times its collateral.
\<close>

theorem calculateHostWeight_collateral_double:
  assumes "MulTax rate (adjustedPrices entry + 10) = MulTax rate (adjustedPrices entry + 20)"
  shows "calculateHostWeight rate (withCollateral entry 20)
           = 2 * calculateHostWeight rate (withCollateral entry 10)"
proof -
  have "totalPrice rate (withCollateral entry 20) = totalPrice rate (withCollateral entry 10)"
    using assms by (simp add: totalPrice_withCollateral)
  then show ?thesis
    by (simp add: calculateHostWeight_withCollateral Let_def)
qed

theorem calculateHostWeight_collateral_double_witness:
  "MulTax (39, 1000) (adjustedPrices (exampleEntry\<lparr>Settings := (Settings exampleEntry)\<lparr>UploadBandwidthPrice := 0\<rparr>\<rparr>) + 10)
     = MulTax (39, 1000) (adjustedPrices (exampleEntry\<lparr>Settings := (Settings exampleEntry)\<lparr>UploadBandwidthPrice := 0\<rparr>\<rparr>) + 20)
   \<and> calculateHostWeight (39, 1000)
        (withCollateral (exampleEntry\<lparr>Settings := (Settings exampleEntry)\<lparr>UploadBandwidthPrice := 0\<rparr>\<rparr>) 20)
      = 2 * calculateHostWeight (39, 1000)
        (withCollateral (exampleEntry\<lparr>Settings := (Settings exampleEntry)\<lparr>UploadBandwidthPrice := 0\<rparr>\<rparr>) 10)"
proof -
  have h: "MulTax (39, 1000) (adjustedPrices (exampleEntry\<lparr>Settings := (Settings exampleEntry)\<lparr>UploadBandwidthPrice := 0\<rparr>\<rparr>) + 10)
     = MulTax (39, 1000) (adjustedPrices (exampleEntry\<lparr>Settings := (Settings exampleEntry)\<lparr>UploadBandwidthPrice := 0\<rparr>\<rparr>) + 20)"
    by (simp add: MulTax_def adjustedPrices_def exampleEntry_def Div64_def)
  show ?thesis
    using h calculateHostWeight_collateral_double [OF h] by simp
qed

text \<open>
  C6 (as the spec has it) fails: with an upload price of 362880 (15 after adjustment) and
  a tax of 39/1000, the fee is 0 at collateral 10 and 1 at collateral 20, the total price
  is 15 and 16, and the weight at collateral 20 is not twice the weight at collateral 10.
\<close>

theorem calculateHostWeight_collateral_counterexample:
  "calculateHostWeight (39, 1000) (withCollateral exampleEntry 20)
     \<noteq> 2 * calculateHostWeight (39, 1000) (withCollateral exampleEntry 10)"
  by (simp add: calculateHostWeight_def totalPrice_def withCollateral_def exampleEntry_def
        MulTax_def Div64_def baseWeight_def Let_def)

section \<open>The balance validator\<close>

lemma collectCoinInputs_eq:
  "collectCoinInputs css height cis acc =
     (case find (\<lambda>ci. \<not> resolves css ci) cis of
        Some ci \<Rightarrow> Inl (ParentNotFound (ciParentID ci) height)
      | None \<Rightarrow> Inr (acc + sum_list (map (resolvedValue css) cis)))"
  by (induction cis arbitrary: acc) (auto simp: resolves_def resolvedValue_def split: option.splits)

lemma find_None_resolves:
  "(find (\<lambda>ci. \<not> resolves css ci) cis = None) = (\<forall>ci \<in> set cis. resolves css ci)"
  by (auto simp: find_None_iff)

text \<open>
  C5. \<open>ValidateCoinOutputsAreBalanced\<close> returns \<open>nil\<close> exactly when every coin input's
  parent resolves in the consensus state and the resolved values add up to
  \<open>CoinOutputSum\<close> (miner fees and coin outputs). When a parent does not resolve, the
  error names the first such parent and the block height of the context; when all resolve
  and the sums differ, the error says whether the inputs are less or greater than the
  outputs, with both sums and the transaction's identifier.
\<close>

theorem ValidateCoinOutputsAreBalanced_correct:
  "(ValidateCoinOutputsAreBalanced tx ctx css = None
      \<longleftrightarrow> (\<forall>ci \<in> set (CoinInputs tx). resolves css ci)
          \<and> resolvedInputSum css tx = CoinOutputSum tx)
   \<and> (\<forall>ci. find (\<lambda>ci. \<not> resolves css ci) (CoinInputs tx) = Some ci
         \<longrightarrow> ValidateCoinOutputsAreBalanced tx ctx css
               = Some (ParentNotFound (ciParentID ci) (ctxBlockHeight ctx)))
   \<and> ((\<forall>ci \<in> set (CoinInputs tx). resolves css ci)
         \<and> resolvedInputSum css tx < CoinOutputSum tx
       \<longrightarrow> ValidateCoinOutputsAreBalanced tx ctx css
             = Some (InputsLessThanOutputs (resolvedInputSum css tx) (txID tx) (CoinOutputSum tx)))
   \<and> ((\<forall>ci \<in> set (CoinInputs tx). resolves css ci)
         \<and> resolvedInputSum css tx > CoinOutputSum tx
       \<longrightarrow> ValidateCoinOutputsAreBalanced tx ctx css
             = Some (InputsGreaterThanOutputs (resolvedInputSum css tx) (txID tx) (CoinOutputSum tx)))"
proof (cases "find (\<lambda>ci. \<not> resolves css ci) (CoinInputs tx)")
  case None
  then have all: "\<forall>ci \<in> set (CoinInputs tx). resolves css ci"
    by (simp add: find_None_resolves)
  from None have "collectCoinInputs css (ctxBlockHeight ctx) (CoinInputs tx) 0 = Inr (resolvedInputSum css tx)"
    by (simp add: collectCoinInputs_eq resolvedInputSum_def)
  then show ?thesis
    using None all by (auto simp: ValidateCoinOutputsAreBalanced_def Let_def)
next
  case (Some ci)
  then have "\<not> (\<forall>ci \<in> set (CoinInputs tx). resolves css ci)"
    by (metis find_None_resolves option.distinct(1))
  moreover from Some have "collectCoinInputs css (ctxBlockHeight ctx) (CoinInputs tx) 0
      = Inl (ParentNotFound (ciParentID ci) (ctxBlockHeight ctx))"
    by (simp add: collectCoinInputs_eq)
  ultimately show ?thesis
    using Some by (simp add: ValidateCoinOutputsAreBalanced_def)
qed

theorem ValidateCoinOutputsAreBalanced_correct_witness:
  "ValidateCoinOutputsAreBalanced balancedTx \<lparr>ctxBlockHeight = 5\<rparr> oneOutput = None
   \<and> list_all (resolves oneOutput) (CoinInputs balancedTx)
   \<and> resolvedInputSum oneOutput balancedTx = 100 \<and> CoinOutputSum balancedTx = 100
   \<and> find (\<lambda>ci. \<not> resolves oneOutput ci) (CoinInputs missingTx) = Some \<lparr>ciParentID = 2\<rparr>
   \<and> ValidateCoinOutputsAreBalanced missingTx \<lparr>ctxBlockHeight = 5\<rparr> oneOutput = Some (ParentNotFound 2 5)"
proof -
  have a: "\<forall>ci \<in> set (CoinInputs balancedTx). resolves oneOutput ci"
    by (simp add: balancedTx_def oneOutput_def resolves_def)
  have b: "resolvedInputSum oneOutput balancedTx = 100"
    by (simp add: balancedTx_def oneOutput_def resolvedInputSum_def resolvedValue_def)
  have c: "CoinOutputSum balancedTx = 100"
    by (simp add: balancedTx_def CoinOutputSum_def)
  have d: "find (\<lambda>ci. \<not> resolves oneOutput ci) (CoinInputs missingTx) = Some \<lparr>ciParentID = 2\<rparr>"
    by (simp add: missingTx_def balancedTx_def oneOutput_def resolves_def)
  show ?thesis
    using a b c d ValidateCoinOutputsAreBalanced_correct [of balancedTx "\<lparr>ctxBlockHeight = 5\<rparr>" oneOutput]
      ValidateCoinOutputsAreBalanced_correct [of missingTx "\<lparr>ctxBlockHeight = 5\<rparr>" oneOutput]
    by (simp add: list_all_iff)
qed

section \<open>The invariant of the host database\<close>

lemma allHostsOk_iff:
  "allHostsOk hdb \<longleftrightarrow>
     (\<forall>a r. fmlookup (allHosts hdb) a = Some r
        \<longrightarrow> NetAddress (Settings (store hdb r)) = a \<and> 0 < Reliability (store hdb r))"
  by (auto simp: allHostsOk_def fmpred_iff)

lemma decrementReliability_allHostsOk:
  assumes "allHostsOk hdb"
  shows "allHostsOk (decrementReliability hdb addr UnreachablePenalty)"
proof (cases "fmlookup (allHosts hdb) addr")
  case None
  then show ?thesis using assms by (simp add: decrementReliability_def)
next
  case (Some e)
  with assms have e: "NetAddress (Settings (store hdb e)) = addr" "0 < Reliability (store hdb e)"
    by (auto simp: allHostsOk_iff)
  show ?thesis
    unfolding allHostsOk_iff
  proof (intro allI impI)
    fix a r
    assume l: "fmlookup (allHosts (decrementReliability hdb addr UnreachablePenalty)) a = Some r"
    then have old: "fmlookup (allHosts hdb) a = Some r"
      using Some by (auto simp: decrementReliability_def Let_def split: if_splits)
    with assms have r: "NetAddress (Settings (store hdb r)) = a" "0 < Reliability (store hdb r)"
      by (auto simp: allHostsOk_iff)
    show "NetAddress (Settings (store (decrementReliability hdb addr UnreachablePenalty) r)) = a
          \<and> 0 < Reliability (store (decrementReliability hdb addr UnreachablePenalty) r)"
    proof (cases "r = e")
      case True
      with r e have "a = addr" by simp
      with l Some True show ?thesis
        using e by (auto simp: decrementReliability_def Let_def Sub_def UnreachablePenalty_def split: if_splits)
    next
      case False
      then show ?thesis using Some r by (simp add: decrementReliability_def Let_def)
    qed
  qed
qed

lemma fcard_fmdom_fmdrop: "fcard (fmdom (fmdrop a m)) \<le> fcard (fmdom m)"
  by (simp add: fcard_fminus1_le)

lemma decrementReliability_activeHosts:
  "activeHosts (decrementReliability hdb addr penalty) = activeHosts hdb
   \<or> (\<exists>a. activeHosts (decrementReliability hdb addr penalty) = fmdrop a (activeHosts hdb))"
  by (auto simp: decrementReliability_def Let_def split: option.splits)

lemma decrementReliability_activeHostsOk:
  assumes "activeHostsOk hdb"
  shows "activeHostsOk (decrementReliability hdb addr penalty)"
proof -
  have "fcard (fmdom (activeHosts (decrementReliability hdb addr penalty)))
          \<le> fcard (fmdom (activeHosts hdb))"
    using decrementReliability_activeHosts [of hdb addr penalty] fcard_fmdom_fmdrop
    by (metis order_refl)
  with assms show ?thesis by (simp add: activeHostsOk_def)
qed


lemma refreshEntry_simps:
  "NetAddress (Settings (refreshEntry rate e ns)) = NetAddress (Settings e)"
  "Reliability (refreshEntry rate e ns) = MaxReliability"
  "Online (refreshEntry rate e ns) = True"
  by (simp_all add: refreshEntry_def Let_def)

lemma managedUpdateEntry_failed_unknown:
  assumes "netErr \<noteq> None"
    and "fmlookup (allHosts hdb) (NetAddress (Settings (store hdb entry))) = None"
  shows "managedUpdateEntry rate hdb entry ns netErr
           = hdb\<lparr>allHosts := fmupd (NetAddress (Settings (store hdb entry))) entry (allHosts hdb)\<rparr>"
  using assms by (simp add: managedUpdateEntry_def Let_def)

lemma managedUpdateEntry_failed_known:
  assumes "netErr \<noteq> None"
    and "fmlookup (allHosts hdb) (NetAddress (Settings (store hdb entry))) = Some prior"
  shows "managedUpdateEntry rate hdb entry ns netErr
           = (if Key (PublicKey (Settings (store hdb prior)))
                   = Key (PublicKey (Settings (store hdb entry)))
              then decrementReliability hdb (NetAddress (Settings (store hdb entry))) UnreachablePenalty
              else hdb)"
  using assms by (simp add: managedUpdateEntry_def Let_def)

lemma managedUpdateEntry_success:
  assumes "netErr = None"
  shows "managedUpdateEntry rate hdb entry ns netErr
           = (let addr = NetAddress (Settings (store hdb entry));
                  rest = fmdrop addr (activeHosts hdb)
              in \<lparr>allHosts = (if fmlookup (allHosts hdb) addr = None
                              then fmupd addr entry (allHosts hdb) else allHosts hdb),
                  activeHosts = (if fcard (fmdom rest) < maxActiveHosts
                                 then fmupd addr entry rest else rest),
                  store = (store hdb)(entry := refreshEntry rate (store hdb entry) ns)\<rparr>)"
proof (cases "fmlookup (activeHosts hdb) (NetAddress (Settings (store hdb entry)))")
  case None
  then have "fmdrop (NetAddress (Settings (store hdb entry))) (activeHosts hdb) = activeHosts hdb"
    by (simp add: fmdrop_idle fmdom_notI)
  moreover from None have "fmdom (activeHosts hdb) |-| {|NetAddress (Settings (store hdb entry))|}
      = fmdom (activeHosts hdb)"
    by (metis calculation fmdom_drop)
  ultimately show ?thesis
    using assms None
    by (cases "fmlookup (allHosts hdb) (NetAddress (Settings (store hdb entry)))")
      (simp_all add: managedUpdateEntry_def Let_def insertNode_def refreshEntry_simps)
next
  case (Some node)
  then show ?thesis
    using assms
    by (cases "fmlookup (allHosts hdb) (NetAddress (Settings (store hdb entry)))")
      (simp_all add: managedUpdateEntry_def Let_def insertNode_def refreshEntry_simps)
qed

lemma managedUpdateEntry_success_allHostsOk:
  assumes "netErr = None" and "allHostsOk hdb"
  shows "allHostsOk (managedUpdateEntry rate hdb entry ns netErr)"
  using assms(2)
  by (auto simp: managedUpdateEntry_success [OF assms(1)] Let_def allHostsOk_iff
        refreshEntry_simps MaxReliability_def split: if_splits)

lemma managedUpdateEntry_success_activeHostsOk:
  assumes "netErr = None" and "activeHostsOk hdb"
  shows "activeHostsOk (managedUpdateEntry rate hdb entry ns netErr)"
proof -
  let ?rest = "fmdrop (NetAddress (Settings (store hdb entry))) (activeHosts hdb)"
  have le: "fcard (fmdom ?rest) \<le> maxActiveHosts"
    using assms(2) fcard_fmdom_fmdrop le_trans by (fastforce simp: activeHostsOk_def)
  have "NetAddress (Settings (store hdb entry)) |\<notin>| fmdom ?rest"
    by simp
  then have "fcard (fmdom (fmupd (NetAddress (Settings (store hdb entry))) entry ?rest))
               = Suc (fcard (fmdom ?rest))"
    by (metis fmdom_fmupd fcard_finsert_disjoint)
  then have ins: "fcard (fmdom ?rest) < maxActiveHosts \<Longrightarrow>
      fcard (fmdom (fmupd (NetAddress (Settings (store hdb entry))) entry ?rest)) \<le> maxActiveHosts"
    by simp
  show ?thesis
    using le ins
    by (simp only: managedUpdateEntry_success [OF assms(1)] Let_def activeHostsOk_def
          HostDB.simps split: if_splits) simp
qed


lemma managedUpdateEntry_failed_allHostsOk:
  assumes "netErr \<noteq> None" and "allHostsOk hdb" and "0 < Reliability (store hdb entry)"
  shows "allHostsOk (managedUpdateEntry rate hdb entry ns netErr)"
proof (cases "fmlookup (allHosts hdb) (NetAddress (Settings (store hdb entry)))")
  case None
  show ?thesis
    using assms(2,3)
    by (auto simp: managedUpdateEntry_failed_unknown [OF assms(1) None] allHostsOk_iff)
next
  case (Some prior)
  show ?thesis
    using assms(2) decrementReliability_allHostsOk
    by (simp add: managedUpdateEntry_failed_known [OF assms(1) Some])
qed

lemma managedUpdateEntry_failed_activeHostsOk:
  assumes "netErr \<noteq> None" and "activeHostsOk hdb"
  shows "activeHostsOk (managedUpdateEntry rate hdb entry ns netErr)"
proof (cases "fmlookup (allHosts hdb) (NetAddress (Settings (store hdb entry)))")
  case None
  show ?thesis
    using assms(2)
    by (simp add: managedUpdateEntry_failed_unknown [OF assms(1) None] activeHostsOk_def)
next
  case (Some prior)
  show ?thesis
    using assms(2) decrementReliability_activeHostsOk
    by (simp add: managedUpdateEntry_failed_known [OF assms(1) Some])
qed

lemma decrementReliability_known:
  assumes "fmlookup (allHosts hdb) addr = Some prior"
    and "NetAddress (Settings (store hdb prior)) = addr"
  shows "Reliability (store (decrementReliability hdb addr penalty) prior)
           = Sub (Reliability (store hdb prior)) penalty"
    and "fmlookup (activeHosts (decrementReliability hdb addr penalty)) addr = None"
    and "fmlookup (allHosts (decrementReliability hdb addr penalty)) addr = None
           \<longleftrightarrow> Reliability (store (decrementReliability hdb addr penalty) prior) = 0"
  using assms
  by (auto simp: decrementReliability_def Let_def split: option.splits)

lemma managedUpdateEntry_new_node:
  assumes "fmlookup (activeHosts (managedUpdateEntry rate hdb entry ns netErr)) a = Some node"
    and "fmlookup (activeHosts hdb) a \<noteq> Some node"
  shows "netErr = None \<and> a = NetAddress (Settings (store hdb entry)) \<and> node = entry
         \<and> Online (store (managedUpdateEntry rate hdb entry ns netErr) node)
         \<and> Reliability (store (managedUpdateEntry rate hdb entry ns netErr) node) = MaxReliability"
proof (cases "netErr = None")
  case True
  show ?thesis
    using assms True
    by (auto simp: managedUpdateEntry_success [OF refl] Let_def refreshEntry_simps
          split: if_splits)
next
  case False
  have "fmlookup (activeHosts (managedUpdateEntry rate hdb entry ns netErr)) a = None
        \<or> fmlookup (activeHosts (managedUpdateEntry rate hdb entry ns netErr)) a
            = fmlookup (activeHosts hdb) a"
    by (cases "fmlookup (allHosts hdb) (NetAddress (Settings (store hdb entry)))")
      (auto simp: managedUpdateEntry_failed_unknown [OF False]
         managedUpdateEntry_failed_known [OF False] decrementReliability_def Let_def
         split: option.splits if_splits)
  with assms show ?thesis by auto
qed

text \<open>
  C8 (as the code has it). When the probed entry has a positive reliability,
  \<open>managedUpdateEntry\<close> keeps the invariant that every entry in \<open>allHosts\<close> is filed
  under its own address with a positive reliability and that \<open>activeHosts\<close> holds at most
  \<open>maxActiveHosts\<close> nodes. A failed probe of a known host with a matching public key
  takes \<open>UnreachablePenalty\<close> off the reliability of the known entry, removes the host
  from \<open>activeHosts\<close>, and removes it from \<open>allHosts\<close> exactly when the reliability has
  reached zero. A node that \<open>activeHosts\<close> gains is the probed entry after a successful
  probe, online and with \<open>MaxReliability\<close>.
\<close>

theorem managedUpdateEntry_keeps_invariant:
  assumes "allHostsOk hdb" and "activeHostsOk hdb"
    and "0 < Reliability (store hdb entry)"
  shows "allHostsOk (managedUpdateEntry rate hdb entry ns netErr)
       \<and> activeHostsOk (managedUpdateEntry rate hdb entry ns netErr)
       \<and> (\<forall>prior. netErr \<noteq> None
            \<and> fmlookup (allHosts hdb) (NetAddress (Settings (store hdb entry))) = Some prior
            \<and> Key (PublicKey (Settings (store hdb prior)))
                = Key (PublicKey (Settings (store hdb entry)))
          \<longrightarrow> Reliability (store (managedUpdateEntry rate hdb entry ns netErr) prior)
                = Sub (Reliability (store hdb prior)) UnreachablePenalty
              \<and> fmlookup (activeHosts (managedUpdateEntry rate hdb entry ns netErr))
                  (NetAddress (Settings (store hdb entry))) = None
              \<and> (fmlookup (allHosts (managedUpdateEntry rate hdb entry ns netErr))
                    (NetAddress (Settings (store hdb entry))) = None
                  \<longleftrightarrow> Reliability (store (managedUpdateEntry rate hdb entry ns netErr) prior) = 0))
       \<and> (\<forall>a node.
            fmlookup (activeHosts (managedUpdateEntry rate hdb entry ns netErr)) a = Some node
            \<and> fmlookup (activeHosts hdb) a \<noteq> Some node
          \<longrightarrow> netErr = None \<and> node = entry
              \<and> Online (store (managedUpdateEntry rate hdb entry ns netErr) node)
              \<and> Reliability (store (managedUpdateEntry rate hdb entry ns netErr) node)
                  = MaxReliability)"
proof -
  have inv1: "allHostsOk (managedUpdateEntry rate hdb entry ns netErr)"
    using assms managedUpdateEntry_failed_allHostsOk managedUpdateEntry_success_allHostsOk
    by (cases "netErr = None") blast+
  have inv2: "activeHostsOk (managedUpdateEntry rate hdb entry ns netErr)"
    using assms managedUpdateEntry_failed_activeHostsOk managedUpdateEntry_success_activeHostsOk
    by (cases "netErr = None") blast+
  have penalty: "Reliability (store (managedUpdateEntry rate hdb entry ns netErr) prior)
                = Sub (Reliability (store hdb prior)) UnreachablePenalty
              \<and> fmlookup (activeHosts (managedUpdateEntry rate hdb entry ns netErr))
                  (NetAddress (Settings (store hdb entry))) = None
              \<and> (fmlookup (allHosts (managedUpdateEntry rate hdb entry ns netErr))
                    (NetAddress (Settings (store hdb entry))) = None
                  \<longleftrightarrow> Reliability (store (managedUpdateEntry rate hdb entry ns netErr) prior) = 0)"
    if h: "netErr \<noteq> None
            \<and> fmlookup (allHosts hdb) (NetAddress (Settings (store hdb entry))) = Some prior
            \<and> Key (PublicKey (Settings (store hdb prior)))
                = Key (PublicKey (Settings (store hdb entry)))" for prior
  proof -
    from h have addr: "NetAddress (Settings (store hdb prior)) = NetAddress (Settings (store hdb entry))"
      using assms(1) by (simp add: allHostsOk_iff)
    have eq: "managedUpdateEntry rate hdb entry ns netErr
        = decrementReliability hdb (NetAddress (Settings (store hdb entry))) UnreachablePenalty"
      using h managedUpdateEntry_failed_known by simp
    show ?thesis
      unfolding eq using h addr decrementReliability_known by simp
  qed
  show ?thesis
    using inv1 inv2 penalty managedUpdateEntry_new_node by blast
qed

lemma scanDB_ok: "allHostsOk scanDB \<and> activeHostsOk scanDB \<and> 0 < Reliability (store scanDB 0)"
  by (simp add: allHostsOk_iff activeHostsOk_def scanDB_def scanEntry_def exampleEntry_def
        maxActiveHosts_def fcard_finsert_if fcard_fempty)

lemma scanDB_failed:
  "managedUpdateEntry rate scanDB 0 ns (Some ''timeout'')
     = \<lparr>allHosts = fmempty, activeHosts = fmempty,
        store = (\<lambda>_. scanEntry)(0 := scanEntry\<lparr>Reliability := 0, Online := False\<rparr>)\<rparr>"
  by (simp add: managedUpdateEntry_def decrementReliability_def Let_def scanDB_def
        scanEntry_def exampleEntry_def Sub_def UnreachablePenalty_def fmdrop_fmupd_same)

theorem managedUpdateEntry_keeps_invariant_witness:
  "allHostsOk scanDB \<and> activeHostsOk scanDB \<and> 0 < Reliability (store scanDB 0)
   \<and> allHostsOk (managedUpdateEntry (39, 1000) scanDB 0 (Settings scanEntry) (Some ''timeout''))
   \<and> activeHostsOk (managedUpdateEntry (39, 1000) scanDB 0 (Settings scanEntry) (Some ''timeout''))
   \<and> fmlookup (allHosts (managedUpdateEntry (39, 1000) scanDB 0 (Settings scanEntry) (Some ''timeout'')))
        ''host:1'' = None
   \<and> fmlookup (activeHosts (managedUpdateEntry (39, 1000) scanDB 0 (Settings scanEntry) (Some ''timeout'')))
        ''host:1'' = None"
proof -
  have a: "allHostsOk scanDB" and b: "activeHostsOk scanDB"
    and c: "0 < Reliability (store scanDB 0)"
    using scanDB_ok by simp_all
  show ?thesis
    using a b c
      managedUpdateEntry_keeps_invariant [OF a b c, of "(39, 1000)" "Settings scanEntry" "Some ''timeout''"]
    by (simp add: scanDB_failed)
qed

text \<open>
  C8 (as the spec has it) fails without the condition on the probed entry. The entry of
  \<open>scanDB\<close> has reliability 1. A first failed probe takes it to 0 and removes the host
  from both maps; the entry itself still exists where the scanner has queued it. A second
  failed probe of the same entry finds no prior host and files the entry in \<open>allHosts\<close>
  again, with reliability 0.
\<close>

theorem managedUpdateEntry_invariant_counterexample:
  "allHostsOk scanDB \<and> activeHostsOk scanDB
   \<and> \<not> allHostsOk (managedUpdateEntry (39, 1000)
          (managedUpdateEntry (39, 1000) scanDB 0 (Settings scanEntry) (Some ''timeout''))
          0 (Settings scanEntry) (Some ''timeout''))"
proof -
  have "managedUpdateEntry (39, 1000)
          \<lparr>allHosts = fmempty, activeHosts = fmempty,
           store = (\<lambda>_. scanEntry)(0 := scanEntry\<lparr>Reliability := 0, Online := False\<rparr>)\<rparr>
          0 (Settings scanEntry) (Some ''timeout'')
        = \<lparr>allHosts = fmupd ''host:1'' 0 fmempty, activeHosts = fmempty,
           store = (\<lambda>_. scanEntry)(0 := scanEntry\<lparr>Reliability := 0, Online := False\<rparr>)\<rparr>"
    by (simp add: managedUpdateEntry_def Let_def scanEntry_def exampleEntry_def)
  then have "\<not> allHostsOk (managedUpdateEntry (39, 1000)
          (managedUpdateEntry (39, 1000) scanDB 0 (Settings scanEntry) (Some ''timeout''))
          0 (Settings scanEntry) (Some ''timeout''))"
    by (simp only: scanDB_failed) (simp add: allHostsOk_iff)
  then show ?thesis
    using scanDB_ok by simp
qed

text \<open>
  C10. After a failed probe: when the address of the probed entry is not in \<open>allHosts\<close>,
  the entry is filed there and nothing else changes, so its reliability is what it was;
  when a prior entry is there, the penalty of \<open>decrementReliability\<close> is applied if the
  key bytes of the prior and the probed entry are equal, and the database stays as it is
  otherwise.
\<close>

theorem managedUpdateEntry_failed_probe:
  assumes "netErr \<noteq> None"
  shows "(fmlookup (allHosts hdb) (NetAddress (Settings (store hdb entry))) = None
          \<longrightarrow> managedUpdateEntry rate hdb entry ns netErr
                = hdb\<lparr>allHosts := fmupd (NetAddress (Settings (store hdb entry))) entry (allHosts hdb)\<rparr>)
       \<and> (\<forall>prior. fmlookup (allHosts hdb) (NetAddress (Settings (store hdb entry))) = Some prior
            \<longrightarrow> managedUpdateEntry rate hdb entry ns netErr
                  = (if Key (PublicKey (Settings (store hdb prior)))
                          = Key (PublicKey (Settings (store hdb entry)))
                     then decrementReliability hdb (NetAddress (Settings (store hdb entry)))
                            UnreachablePenalty
                     else hdb))"
  using assms managedUpdateEntry_failed_unknown managedUpdateEntry_failed_known by simp

theorem managedUpdateEntry_failed_probe_witness:
  "Some ''timeout'' \<noteq> (None :: string option)
   \<and> fmlookup (allHosts emptyDB) (NetAddress (Settings (store emptyDB 0))) = None
   \<and> managedUpdateEntry (39, 1000) emptyDB 0 (Settings scanEntry) (Some ''timeout'')
       = emptyDB\<lparr>allHosts := fmupd ''host:1'' 0 fmempty\<rparr>
   \<and> Reliability (store (managedUpdateEntry (39, 1000) emptyDB 0 (Settings scanEntry)
                           (Some ''timeout'')) 0) = 1"
proof -
  have a: "Some ''timeout'' \<noteq> (None :: string option)" by simp
  have b: "fmlookup (allHosts emptyDB) (NetAddress (Settings (store emptyDB 0))) = None"
    by (simp add: emptyDB_def)
  have c: "NetAddress (Settings (store emptyDB 0)) = ''host:1''"
    by (simp add: emptyDB_def scanEntry_def exampleEntry_def)
  have d: "Reliability (store emptyDB 0) = 1"
    by (simp add: emptyDB_def scanEntry_def)
  have e: "allHosts emptyDB = fmempty"
    by (simp add: emptyDB_def)
  show ?thesis
    using a b c d e
      managedUpdateEntry_failed_probe [OF a, of emptyDB 0 "(39, 1000)" "Settings scanEntry"]
    by simp
qed

section \<open>The checks of a proposed revision\<close>

lemma checkPayments_errors:
  "checkPayments oldFCR revision nr nc = Returns (Some e) \<Longrightarrow>
     e \<in> {errHighRenterValidOutput, errLowHostValidOutput, errHighRenterMissedOutput,
          errLowHostMissedOutput}"
  by (auto simp: checkPayments_def split: option.splits if_splits)

lemma checkMerkleRoot_errors:
  "checkMerkleRoot ext so revision = Returns (Some e) \<Longrightarrow> e = errBadFileMerkleRoot"
  by (auto simp: checkMerkleRoot_def split: option.splits if_splits)

lemma paymentsThenRoot_errors:
  "paymentsThenRoot ext so oldFCR revision nr nc = Returns (Some e) \<Longrightarrow>
     e \<in> {errHighRenterValidOutput, errLowHostValidOutput, errHighRenterMissedOutput,
          errLowHostMissedOutput, errBadFileMerkleRoot}"
  using checkPayments_errors [of oldFCR revision nr nc e] checkMerkleRoot_errors [of ext so revision e]
  by (auto simp: paymentsThenRoot_def split: outcome.splits option.splits)

lemma verifyRevision_early:
  "length (NewValidProofOutputs revision) \<noteq> 2 \<or> length (NewMissedProofOutputs revision) \<noteq> 3
     \<Longrightarrow> verifyRevision ext so revision height nr nc = Returns (Some errBadContractOutputCounts)"
  "length (NewValidProofOutputs revision) = 2 \<Longrightarrow> length (NewMissedProofOutputs revision) = 3
     \<Longrightarrow> expiration ext so - revisionSubmissionBuffer ext \<le> height
     \<Longrightarrow> verifyRevision ext so revision height nr nc = Returns (Some errLateRevision)"
  "length (NewValidProofOutputs revision) = 2 \<Longrightarrow> length (NewMissedProofOutputs revision) = 3
     \<Longrightarrow> \<not> expiration ext so - revisionSubmissionBuffer ext \<le> height
     \<Longrightarrow> oldRevision so = None
     \<Longrightarrow> verifyRevision ext so revision height nr nc = Panics"
  by (simp_all add: verifyRevision_def)

lemma verifyRevision_checks:
  assumes "length (NewValidProofOutputs revision) = 2"
    and "length (NewMissedProofOutputs revision) = 3"
    and "\<not> expiration ext so - revisionSubmissionBuffer ext \<le> height"
    and "oldRevision so = Some oldFCR"
  shows "verifyRevision ext so revision height nr nc =
     firstFailure
       [(ParentID oldFCR \<noteq> ParentID revision, errBadContractParent),
        (UnlockConditionsHash ext (UnlockConditions oldFCR)
           \<noteq> UnlockConditionsHash ext (UnlockConditions revision), errBadUnlockConditions),
        (NewRevisionNumber oldFCR \<ge> NewRevisionNumber revision, errBadRevisionNumber),
        (NewFileSize revision \<noteq> of_nat (length (SectorRoots so)) * SectorSize ext, errBadFileSize),
        (NewWindowStart oldFCR \<noteq> NewWindowStart revision, errBadWindowStart),
        (NewWindowEnd oldFCR \<noteq> NewWindowEnd revision, errBadWindowEnd),
        (NewUnlockHash oldFCR \<noteq> NewUnlockHash revision, errBadUnlockHash)]
       (paymentsThenRoot ext so oldFCR revision nr nc)"
  using assms by (simp add: verifyRevision_def)


lemma firstFailure_errors:
  "firstFailure checks remaining = Returns (Some e) \<Longrightarrow>
     e \<in> snd ` set checks \<or> remaining = Returns (Some e)"
  by (induction checks remaining rule: firstFailure.induct) (auto split: if_splits)

lemma verifyRevision_not_late:
  assumes "\<not> expiration ext so - revisionSubmissionBuffer ext \<le> height"
  shows "verifyRevision ext so revision height nr nc \<noteq> Returns (Some errLateRevision)"
proof (cases "length (NewValidProofOutputs revision) = 2 \<and> length (NewMissedProofOutputs revision) = 3")
  case False
  then show ?thesis by (auto simp: verifyRevision_early(1))
next
  case True
  show ?thesis
  proof (cases "oldRevision so")
    case None
    with True assms show ?thesis by (simp add: verifyRevision_early(3))
  next
    case (Some oldFCR)
    show ?thesis
    proof
      assume "verifyRevision ext so revision height nr nc = Returns (Some errLateRevision)"
      then have "firstFailure
       [(ParentID oldFCR \<noteq> ParentID revision, errBadContractParent),
        (UnlockConditionsHash ext (UnlockConditions oldFCR)
           \<noteq> UnlockConditionsHash ext (UnlockConditions revision), errBadUnlockConditions),
        (NewRevisionNumber oldFCR \<ge> NewRevisionNumber revision, errBadRevisionNumber),
        (NewFileSize revision \<noteq> of_nat (length (SectorRoots so)) * SectorSize ext, errBadFileSize),
        (NewWindowStart oldFCR \<noteq> NewWindowStart revision, errBadWindowStart),
        (NewWindowEnd oldFCR \<noteq> NewWindowEnd revision, errBadWindowEnd),
        (NewUnlockHash oldFCR \<noteq> NewUnlockHash revision, errBadUnlockHash)]
       (paymentsThenRoot ext so oldFCR revision nr nc) = Returns (Some errLateRevision)"
        unfolding verifyRevision_checks [OF conjunct1 [OF True] conjunct2 [OF True] assms Some] .
      from firstFailure_errors [OF this]
      have "paymentsThenRoot ext so oldFCR revision nr nc = Returns (Some errLateRevision)"
        by auto
      from paymentsThenRoot_errors [OF this] show False by simp
    qed
  qed
qed

text \<open>
  C4 (as the code has it). \<open>verifyRevision\<close> returns \<open>errLateRevision\<close> exactly when
  the output counts are right and \<open>expiration - revisionSubmissionBuffer \<le> blockHeight\<close>
  in \<open>uint64\<close> arithmetic: a revision at the height \<open>expiration - revisionSubmissionBuffer\<close>
  itself is rejected as late, and the lateness check passes exactly at the heights below
  it.
\<close>

theorem verifyRevision_late:
  "verifyRevision ext so revision height nr nc = Returns (Some errLateRevision)
     \<longleftrightarrow> length (NewValidProofOutputs revision) = 2
         \<and> length (NewMissedProofOutputs revision) = 3
         \<and> expiration ext so - revisionSubmissionBuffer ext \<le> height"
proof (cases "length (NewValidProofOutputs revision) = 2 \<and> length (NewMissedProofOutputs revision) = 3")
  case True
  then show ?thesis
    using verifyRevision_early(2) [of revision ext so height nr nc]
      verifyRevision_not_late [of ext so height revision nr nc]
    by blast
next
  case False
  then show ?thesis
    using verifyRevision_early(1) [of revision ext so height nr nc] by auto
qed

lemma test_expiration: "expiration testExternals testObligation = 250"
  by (simp add: testExternals_def testObligation_def oldRevision_def firstRevision_def)

lemma test_oldRevision: "oldRevision testObligation = Some firstRevision"
  by (simp add: testObligation_def oldRevision_def)

lemma test_buffer: "revisionSubmissionBuffer testExternals = 10"
  by (simp add: testExternals_def)

lemma test_counts:
  "length (NewValidProofOutputs insertRevision) = 2"
  "length (NewMissedProofOutputs insertRevision) = 3"
  "length (NewValidProofOutputs staleRevision) = 2"
  "length (NewMissedProofOutputs staleRevision) = 3"
  "length (NewValidProofOutputs firstRevision) = 2"
  "length (NewMissedProofOutputs firstRevision) = 3"
  by (simp_all add: insertRevision_def staleRevision_def firstRevision_def)

theorem verifyRevision_late_witness:
  "verifyRevision testExternals testObligation insertRevision 240 0 0 = Returns (Some errLateRevision)
   \<and> verifyRevision testExternals testObligation insertRevision 239 0 0 \<noteq> Returns (Some errLateRevision)"
  using verifyRevision_late [of testExternals testObligation insertRevision 240 0 0]
    verifyRevision_late [of testExternals testObligation insertRevision 239 0 0]
  by (simp add: test_expiration test_buffer test_counts)

text \<open>
  C4 (as the spec has it) fails at the height of equality: with the window start 250 and
  a buffer of 10, a revision proposed at height 240 is rejected as late.
\<close>

theorem verifyRevision_late_counterexample:
  "expiration testExternals testObligation - revisionSubmissionBuffer testExternals = 240
   \<and> verifyRevision testExternals testObligation insertRevision 240 0 0
       = Returns (Some errLateRevision)"
  by (simp add: verifyRevision_def test_expiration test_buffer test_counts)

lemma checkPayments_checks:
  assumes "length (NewValidProofOutputs revision) = 2"
    and "length (NewMissedProofOutputs revision) = 3"
    and "2 \<le> length (NewValidProofOutputs oldFCR)"
    and "2 \<le> length (NewMissedProofOutputs oldFCR)"
  shows "checkPayments oldFCR revision nr nc =
     firstFailure
       [(Value (NewValidProofOutputs revision ! 0) + nr > Value (NewValidProofOutputs oldFCR ! 0),
           errHighRenterValidOutput),
        (Value (NewValidProofOutputs oldFCR ! 1) + nr < Value (NewValidProofOutputs revision ! 1),
           errLowHostValidOutput),
        (Value (NewMissedProofOutputs revision ! 0) + nr > Value (NewMissedProofOutputs oldFCR ! 0),
           errHighRenterMissedOutput),
        (Value (NewMissedProofOutputs revision ! 1) + nc < Value (NewMissedProofOutputs oldFCR ! 1),
           errLowHostMissedOutput)]
       (Returns None)"
proof -
  have "outputValue (NewValidProofOutputs revision) 0 = Some (Value (NewValidProofOutputs revision ! 0))"
    "outputValue (NewValidProofOutputs revision) 1 = Some (Value (NewValidProofOutputs revision ! 1))"
    "outputValue (NewMissedProofOutputs revision) 0 = Some (Value (NewMissedProofOutputs revision ! 0))"
    "outputValue (NewMissedProofOutputs revision) 1 = Some (Value (NewMissedProofOutputs revision ! 1))"
    "outputValue (NewValidProofOutputs oldFCR) 0 = Some (Value (NewValidProofOutputs oldFCR ! 0))"
    "outputValue (NewValidProofOutputs oldFCR) 1 = Some (Value (NewValidProofOutputs oldFCR ! 1))"
    "outputValue (NewMissedProofOutputs oldFCR) 0 = Some (Value (NewMissedProofOutputs oldFCR ! 0))"
    "outputValue (NewMissedProofOutputs oldFCR) 1 = Some (Value (NewMissedProofOutputs oldFCR ! 1))"
    using assms by (auto simp: outputValue_def)
  then show ?thesis
    by (simp add: checkPayments_def)
qed

lemma firstFailure_append:
  "firstFailure (xs @ ys) remaining = firstFailure xs (firstFailure ys remaining)"
  by (induction xs remaining rule: firstFailure.induct) auto

lemma firstFailure_then:
  "(case firstFailure checks (Returns None) of Returns None \<Rightarrow> remaining | other \<Rightarrow> other)
     = firstFailure checks remaining"
  by (induction checks "Returns None :: error option outcome" rule: firstFailure.induct) auto


text \<open>
  C1 (as the code has it). With an old revision that has its two valid and two of its
  missed outputs, \<open>verifyRevision\<close> is the first failure of the checks in this order:
  output counts, lateness, parent, unlock conditions, revision number, file size, window
  start, window end, new unlock hash, the four payment checks, and the Merkle root last.
  In particular a revision that does not raise the revision number, with the counts, the
  time, the parent and the unlock conditions in order, gets \<open>errBadRevisionNumber\<close>
  whatever its window and its new unlock hash are.
\<close>

theorem verifyRevision_order:
  assumes "oldRevision so = Some oldFCR"
    and "2 \<le> length (NewValidProofOutputs oldFCR)"
    and "2 \<le> length (NewMissedProofOutputs oldFCR)"
  shows "verifyRevision ext so revision height nr nc =
     firstFailure
       [(length (NewValidProofOutputs revision) \<noteq> 2 \<or> length (NewMissedProofOutputs revision) \<noteq> 3,
           errBadContractOutputCounts),
        (expiration ext so - revisionSubmissionBuffer ext \<le> height, errLateRevision),
        (ParentID oldFCR \<noteq> ParentID revision, errBadContractParent),
        (UnlockConditionsHash ext (UnlockConditions oldFCR)
           \<noteq> UnlockConditionsHash ext (UnlockConditions revision), errBadUnlockConditions),
        (NewRevisionNumber oldFCR \<ge> NewRevisionNumber revision, errBadRevisionNumber),
        (NewFileSize revision \<noteq> of_nat (length (SectorRoots so)) * SectorSize ext, errBadFileSize),
        (NewWindowStart oldFCR \<noteq> NewWindowStart revision, errBadWindowStart),
        (NewWindowEnd oldFCR \<noteq> NewWindowEnd revision, errBadWindowEnd),
        (NewUnlockHash oldFCR \<noteq> NewUnlockHash revision, errBadUnlockHash),
        (Value (NewValidProofOutputs revision ! 0) + nr > Value (NewValidProofOutputs oldFCR ! 0),
           errHighRenterValidOutput),
        (Value (NewValidProofOutputs oldFCR ! 1) + nr < Value (NewValidProofOutputs revision ! 1),
           errLowHostValidOutput),
        (Value (NewMissedProofOutputs revision ! 0) + nr > Value (NewMissedProofOutputs oldFCR ! 0),
           errHighRenterMissedOutput),
        (Value (NewMissedProofOutputs revision ! 1) + nc < Value (NewMissedProofOutputs oldFCR ! 1),
           errLowHostMissedOutput)]
       (checkMerkleRoot ext so revision)
   \<and> (length (NewValidProofOutputs revision) = 2 \<and> length (NewMissedProofOutputs revision) = 3
        \<and> \<not> expiration ext so - revisionSubmissionBuffer ext \<le> height
        \<and> ParentID oldFCR = ParentID revision
        \<and> UnlockConditionsHash ext (UnlockConditions oldFCR)
             = UnlockConditionsHash ext (UnlockConditions revision)
        \<and> \<not> NewRevisionNumber oldFCR < NewRevisionNumber revision
      \<longrightarrow> verifyRevision ext so revision height nr nc = Returns (Some errBadRevisionNumber))"
proof (cases "length (NewValidProofOutputs revision) = 2 \<and> length (NewMissedProofOutputs revision) = 3")
  case False
  then show ?thesis
    using verifyRevision_early(1) [of revision ext so height nr nc] by auto
next
  case counts: True
  show ?thesis
  proof (cases "expiration ext so - revisionSubmissionBuffer ext \<le> height")
    case True
    then show ?thesis
      using counts verifyRevision_early(2) [of revision ext so height nr nc] by simp
  next
    case False
    have pay: "paymentsThenRoot ext so oldFCR revision nr nc =
      firstFailure
       [(Value (NewValidProofOutputs revision ! 0) + nr > Value (NewValidProofOutputs oldFCR ! 0),
           errHighRenterValidOutput),
        (Value (NewValidProofOutputs oldFCR ! 1) + nr < Value (NewValidProofOutputs revision ! 1),
           errLowHostValidOutput),
        (Value (NewMissedProofOutputs revision ! 0) + nr > Value (NewMissedProofOutputs oldFCR ! 0),
           errHighRenterMissedOutput),
        (Value (NewMissedProofOutputs revision ! 1) + nc < Value (NewMissedProofOutputs oldFCR ! 1),
           errLowHostMissedOutput)]
       (checkMerkleRoot ext so revision)"
      unfolding paymentsThenRoot_def
        checkPayments_checks [OF conjunct1 [OF counts] conjunct2 [OF counts] assms(2,3)]
      by (rule firstFailure_then)
    show ?thesis
    proof (intro conjI impI)
      show "verifyRevision ext so revision height nr nc = firstFailure
       [(length (NewValidProofOutputs revision) \<noteq> 2 \<or> length (NewMissedProofOutputs revision) \<noteq> 3,
           errBadContractOutputCounts),
        (expiration ext so - revisionSubmissionBuffer ext \<le> height, errLateRevision),
        (ParentID oldFCR \<noteq> ParentID revision, errBadContractParent),
        (UnlockConditionsHash ext (UnlockConditions oldFCR)
           \<noteq> UnlockConditionsHash ext (UnlockConditions revision), errBadUnlockConditions),
        (NewRevisionNumber oldFCR \<ge> NewRevisionNumber revision, errBadRevisionNumber),
        (NewFileSize revision \<noteq> of_nat (length (SectorRoots so)) * SectorSize ext, errBadFileSize),
        (NewWindowStart oldFCR \<noteq> NewWindowStart revision, errBadWindowStart),
        (NewWindowEnd oldFCR \<noteq> NewWindowEnd revision, errBadWindowEnd),
        (NewUnlockHash oldFCR \<noteq> NewUnlockHash revision, errBadUnlockHash),
        (Value (NewValidProofOutputs revision ! 0) + nr > Value (NewValidProofOutputs oldFCR ! 0),
           errHighRenterValidOutput),
        (Value (NewValidProofOutputs oldFCR ! 1) + nr < Value (NewValidProofOutputs revision ! 1),
           errLowHostValidOutput),
        (Value (NewMissedProofOutputs revision ! 0) + nr > Value (NewMissedProofOutputs oldFCR ! 0),
           errHighRenterMissedOutput),
        (Value (NewMissedProofOutputs revision ! 1) + nc < Value (NewMissedProofOutputs oldFCR ! 1),
           errLowHostMissedOutput)]
       (checkMerkleRoot ext so revision)"
        unfolding verifyRevision_checks [OF conjunct1 [OF counts] conjunct2 [OF counts] False assms(1)] pay
        using counts False by simp
    next
      assume "length (NewValidProofOutputs revision) = 2 \<and> length (NewMissedProofOutputs revision) = 3
        \<and> \<not> expiration ext so - revisionSubmissionBuffer ext \<le> height
        \<and> ParentID oldFCR = ParentID revision
        \<and> UnlockConditionsHash ext (UnlockConditions oldFCR)
             = UnlockConditionsHash ext (UnlockConditions revision)
        \<and> \<not> NewRevisionNumber oldFCR < NewRevisionNumber revision"
      then show "verifyRevision ext so revision height nr nc = Returns (Some errBadRevisionNumber)"
        unfolding verifyRevision_checks [OF conjunct1 [OF counts] conjunct2 [OF counts] False assms(1)]
        by (simp add: not_less)
    qed
  qed
qed

theorem verifyRevision_order_witness:
  "oldRevision testObligation = Some firstRevision
   \<and> NewWindowStart firstRevision \<noteq> NewWindowStart staleRevision
   \<and> verifyRevision testExternals testObligation staleRevision 200 0 0
       = Returns (Some errBadRevisionNumber)"
proof -
  have a: "oldRevision testObligation = Some firstRevision"
    by (rule test_oldRevision)
  have b: "2 \<le> length (NewValidProofOutputs firstRevision)"
    and c: "2 \<le> length (NewMissedProofOutputs firstRevision)"
    by (simp_all add: test_counts)
  have d: "NewWindowStart firstRevision \<noteq> NewWindowStart staleRevision"
    by (simp add: staleRevision_def firstRevision_def)
  have e: "ParentID firstRevision = ParentID staleRevision"
    "UnlockConditions firstRevision = UnlockConditions staleRevision"
    "NewRevisionNumber firstRevision = NewRevisionNumber staleRevision"
    by (simp_all add: staleRevision_def)
  show ?thesis
    using a d e verifyRevision_order [OF a b c, of testExternals staleRevision 200 0 0, THEN conjunct2]
    by (simp add: test_expiration test_buffer test_counts)
qed

text \<open>
  C1 (as the spec has it) fails: a revision that keeps the revision number and moves the
  window start from 250 to 260 gets \<open>errBadRevisionNumber\<close>, not \<open>errBadWindowStart\<close>.
\<close>

theorem verifyRevision_order_counterexample:
  "NewWindowStart staleRevision \<noteq> NewWindowStart firstRevision
   \<and> \<not> NewRevisionNumber staleRevision > NewRevisionNumber firstRevision
   \<and> verifyRevision testExternals testObligation staleRevision 200 0 0
       = Returns (Some errBadRevisionNumber)
   \<and> verifyRevision testExternals testObligation staleRevision 200 0 0
       \<noteq> Returns (Some errBadWindowStart)"
  by (simp add: verifyRevision_def test_oldRevision test_expiration test_buffer test_counts
        staleRevision_def firstRevision_def)

section \<open>The modifications and the commit\<close>

lemma applyModification_bad_index:
  assumes "if Type m = ActionInsert then unat (SectorIndex m) > length (SectorRoots so)
           else unat (SectorIndex m) \<ge> length (SectorRoots so)"
  shows "applyModification ext hs height m (so, w) = Returns (Inl errBadModificationIndex)"
  using assms by (simp add: applyModification_def Let_def)

lemma applyModification_good_index:
  assumes "\<not> (if Type m = ActionInsert then unat (SectorIndex m) > length (SectorRoots so)
              else unat (SectorIndex m) \<ge> length (SectorRoots so))"
  shows "applyModification ext hs height m (so, w) \<noteq> Returns (Inl errBadModificationIndex)"
  using assms
  by (auto simp: applyModification_def Let_def split: ActionType.splits sum.splits)

lemma applyModification_insert:
  assumes "Type m = ActionInsert" and "unat (SectorIndex m) \<le> length (SectorRoots so)"
    and "length (Data m) = unat (SectorSize ext)"
  shows "applyModification ext hs height m (so, w) =
     Returns (Inr
       (so\<lparr>SectorRoots := take (unat (SectorIndex m)) (SectorRoots so) @ [MerkleRoot ext (Data m)]
                             @ drop (unat (SectorIndex m)) (SectorRoots so)\<rparr>,
        w\<lparr>bandwidthRevenue := bandwidthRevenue w + MinUploadBandwidthPrice hs * unat (SectorSize ext),
          storageRevenue := storageRevenue w
             + MinStoragePrice hs * (unat (proofDeadline ext so - height) * unat (SectorSize ext)),
          newCollateral := newCollateral w
             + hostCollateral hs * (unat (proofDeadline ext so - height) * unat (SectorSize ext)),
          sectorsGained := sectorsGained w @ [MerkleRoot ext (Data m)],
          gainedSectorData := gainedSectorData w @ [Data m]\<rparr>))"
  using assms by (simp add: applyModification_def Let_def Mul64_def)

lemma modificationLoop_append:
  "modificationLoop ext hs height earlier sw0 = Returns (None, sw) \<Longrightarrow>
     modificationLoop ext hs height (earlier @ rest) sw0 = modificationLoop ext hs height rest sw"
proof (induction earlier arbitrary: sw0)
  case Nil
  then show ?case by simp
next
  case (Cons m earlier)
  then show ?case
    by (cases "applyModification ext hs height m sw0")
      (auto split: sum.splits)
qed

text \<open>
  C7. The index check of one modification, on the sector roots as they are when the
  modification is reached: an insert beyond the end gets \<open>errBadModificationIndex\<close>;
  an insert at the end passes the check, and with a sector of the right size it puts the
  new root at the end; any other modification at or beyond the end gets
  \<open>errBadModificationIndex\<close>. After earlier modifications that went through, the loop
  applies the next one to the obligation that they have left.
\<close>

theorem modification_index_check:
  "(Type m = ActionInsert \<and> unat (SectorIndex m) > length (SectorRoots so)
      \<longrightarrow> applyModification ext hs height m (so, w) = Returns (Inl errBadModificationIndex))
   \<and> (Type m = ActionInsert \<and> unat (SectorIndex m) = length (SectorRoots so)
      \<longrightarrow> applyModification ext hs height m (so, w) \<noteq> Returns (Inl errBadModificationIndex)
          \<and> (length (Data m) = unat (SectorSize ext)
              \<longrightarrow> (\<exists>w'. applyModification ext hs height m (so, w)
                     = Returns (Inr (so\<lparr>SectorRoots := SectorRoots so @ [MerkleRoot ext (Data m)]\<rparr>, w')))))
   \<and> (Type m \<noteq> ActionInsert \<and> unat (SectorIndex m) \<ge> length (SectorRoots so)
      \<longrightarrow> applyModification ext hs height m (so, w) = Returns (Inl errBadModificationIndex))
   \<and> (modificationLoop ext hs height earlier sw0 = Returns (None, (so, w))
      \<longrightarrow> modificationLoop ext hs height (earlier @ m # rest) sw0
          = (case applyModification ext hs height m (so, w) of
               Returns (Inl e) \<Rightarrow> Returns (Some e, (so, w))
             | Returns (Inr sw') \<Rightarrow> modificationLoop ext hs height rest sw'
             | Panics \<Rightarrow> Panics
             | Diverges \<Rightarrow> Diverges))"
proof (intro conjI impI)
  assume "Type m = ActionInsert \<and> unat (SectorIndex m) > length (SectorRoots so)"
  then show "applyModification ext hs height m (so, w) = Returns (Inl errBadModificationIndex)"
    by (simp add: applyModification_bad_index)
next
  assume "Type m = ActionInsert \<and> unat (SectorIndex m) = length (SectorRoots so)"
  then show "applyModification ext hs height m (so, w) \<noteq> Returns (Inl errBadModificationIndex)"
    by (simp add: applyModification_good_index)
next
  assume "Type m = ActionInsert \<and> unat (SectorIndex m) = length (SectorRoots so)"
    and "length (Data m) = unat (SectorSize ext)"
  then show "\<exists>w'. applyModification ext hs height m (so, w)
               = Returns (Inr (so\<lparr>SectorRoots := SectorRoots so @ [MerkleRoot ext (Data m)]\<rparr>, w'))"
    by (simp add: applyModification_insert)
next
  assume "Type m \<noteq> ActionInsert \<and> unat (SectorIndex m) \<ge> length (SectorRoots so)"
  then show "applyModification ext hs height m (so, w) = Returns (Inl errBadModificationIndex)"
    by (simp add: applyModification_bad_index)
next
  assume "modificationLoop ext hs height earlier sw0 = Returns (None, (so, w))"
  then show "modificationLoop ext hs height (earlier @ m # rest) sw0
          = (case applyModification ext hs height m (so, w) of
               Returns (Inl e) \<Rightarrow> Returns (Some e, (so, w))
             | Returns (Inr sw') \<Rightarrow> modificationLoop ext hs height rest sw'
             | Panics \<Rightarrow> Panics
             | Diverges \<Rightarrow> Diverges)"
    by (simp add: modificationLoop_append)
qed

text \<open>
  C3. One insert of a sector of \<open>SectorSize\<close> bytes into an obligation with no sectors
  goes through; with \<open>remainingBlocks = proofDeadline - blockHeight\<close> the storage
  revenue is \<open>MinStoragePrice * remainingBlocks * SectorSize\<close>, the bandwidth revenue
  \<open>MinUploadBandwidthPrice * SectorSize\<close> and the new collateral
  \<open>Collateral * remainingBlocks * SectorSize\<close>. The numbers of the scenario, 819200,
  12288 and 409600, are those of the witness.
\<close>

theorem single_insert_finances:
  assumes "SectorRoots so = []" and "Type m = ActionInsert" and "SectorIndex m = 0"
    and "length (Data m) = unat (SectorSize ext)"
  shows "\<exists>so' w. modificationLoop ext hs height [m] (so, noWork) = Returns (None, (so', w))
           \<and> SectorRoots so' = [MerkleRoot ext (Data m)]
           \<and> storageRevenue w
               = MinStoragePrice hs * unat (proofDeadline ext so - height) * unat (SectorSize ext)
           \<and> bandwidthRevenue w = MinUploadBandwidthPrice hs * unat (SectorSize ext)
           \<and> newCollateral w
               = hostCollateral hs * unat (proofDeadline ext so - height) * unat (SectorSize ext)"
  using assms by (simp add: applyModification_insert noWork_def)

lemma test_values:
  "SectorRoots testObligation = []" "Type insertZeroSector = ActionInsert"
  "SectorIndex insertZeroSector = 0"
  "length (Data insertZeroSector) = unat (SectorSize testExternals)"
  "SectorSize testExternals = 4096"
  "MerkleRoot testExternals (Data insertZeroSector) = 4097"
  "proofDeadline testExternals testObligation = 300"
  "settings testHost = \<lparr>MinUploadBandwidthPrice = 3, MinStoragePrice = 2, hostCollateral = 1\<rparr>"
  "blockHeight testHost = 200"
  by (simp_all add: testObligation_def insertZeroSector_def testExternals_def testHost_def
        oldRevision_def firstRevision_def)

theorem single_insert_finances_witness:
  "\<exists>so' w. modificationLoop testExternals (settings testHost) (blockHeight testHost)
              [insertZeroSector] (testObligation, noWork) = Returns (None, (so', w))
           \<and> SectorRoots so' = [4097]
           \<and> storageRevenue w = 819200
           \<and> bandwidthRevenue w = 12288
           \<and> newCollateral w = 409600"
  using single_insert_finances [OF test_values(1-4), of "settings testHost" "blockHeight testHost"]
  by (simp add: test_values)


lemma test_loop:
  "modificationLoop testExternals (settings testHost) (blockHeight testHost)
     [insertZeroSector] (testObligation, noWork)
   = Returns (None, (testObligation\<lparr>SectorRoots := [4097]\<rparr>,
        \<lparr>bandwidthRevenue = 12288, storageRevenue = 819200, newCollateral = 409600,
         sectorsRemoved = [], sectorsGained = [4097],
         gainedSectorData = [replicate 4096 0]\<rparr>))"
  by (simp add: applyModification_insert test_values noWork_def)
    (simp add: insertZeroSector_def)

theorem modification_index_check_witness:
  "(\<exists>sw. modificationLoop testExternals (settings testHost) (blockHeight testHost)
            ([insertZeroSector] @ insertZeroSector\<lparr>SectorIndex := 2\<rparr> # []) (testObligation, noWork)
          = Returns (Some errBadModificationIndex, sw))
   \<and> (\<exists>w. modificationLoop testExternals (settings testHost) (blockHeight testHost)
            ([insertZeroSector] @ insertZeroSector\<lparr>SectorIndex := 1\<rparr> # []) (testObligation, noWork)
          = Returns (None, (testObligation\<lparr>SectorRoots := [4097, 4097]\<rparr>, w)))
   \<and> applyModification testExternals (settings testHost) (blockHeight testHost)
         (insertZeroSector\<lparr>SectorIndex := 1\<rparr>) (testObligation, noWork)
       = Returns (Inl errBadModificationIndex)
   \<and> applyModification testExternals (settings testHost) (blockHeight testHost)
         (insertZeroSector\<lparr>Type := ActionDelete\<rparr>) (testObligation, noWork)
       = Returns (Inl errBadModificationIndex)"
proof -
  let ?so1 = "testObligation\<lparr>SectorRoots := [4097]\<rparr>"
  let ?w1 = "\<lparr>bandwidthRevenue = 12288, storageRevenue = 819200, newCollateral = 409600,
         sectorsRemoved = [], sectorsGained = [4097],
         gainedSectorData = [replicate 4096 0]\<rparr>"
  have two: "Type (insertZeroSector\<lparr>SectorIndex := 2\<rparr>) = ActionInsert
      \<and> unat (SectorIndex (insertZeroSector\<lparr>SectorIndex := 2\<rparr>)) > length (SectorRoots ?so1)"
    by (simp add: insertZeroSector_def)
  have one: "Type (insertZeroSector\<lparr>SectorIndex := 1\<rparr>) = ActionInsert
      \<and> unat (SectorIndex (insertZeroSector\<lparr>SectorIndex := 1\<rparr>)) = length (SectorRoots ?so1)"
    "length (Data (insertZeroSector\<lparr>SectorIndex := 1\<rparr>)) = unat (SectorSize testExternals)"
    "MerkleRoot testExternals (Data (insertZeroSector\<lparr>SectorIndex := 1\<rparr>)) = 4097"
    by (simp_all add: insertZeroSector_def testExternals_def)
  have first: "Type (insertZeroSector\<lparr>SectorIndex := 1\<rparr>) = ActionInsert
      \<and> unat (SectorIndex (insertZeroSector\<lparr>SectorIndex := 1\<rparr>)) > length (SectorRoots testObligation)"
    by (simp add: insertZeroSector_def testObligation_def)
  have del: "Type (insertZeroSector\<lparr>Type := ActionDelete\<rparr>) \<noteq> ActionInsert
      \<and> unat (SectorIndex (insertZeroSector\<lparr>Type := ActionDelete\<rparr>)) \<ge> length (SectorRoots testObligation)"
    by (simp add: insertZeroSector_def testObligation_def)
  note T2 = modification_index_check [of "insertZeroSector\<lparr>SectorIndex := 2\<rparr>" ?so1 testExternals
        "settings testHost" "blockHeight testHost" ?w1 "[insertZeroSector]" "(testObligation, noWork)" "[]"]
  note T1 = modification_index_check [of "insertZeroSector\<lparr>SectorIndex := 1\<rparr>" ?so1 testExternals
        "settings testHost" "blockHeight testHost" ?w1 "[insertZeroSector]" "(testObligation, noWork)" "[]"]
  from T2 two have "applyModification testExternals (settings testHost) (blockHeight testHost)
      (insertZeroSector\<lparr>SectorIndex := 2\<rparr>) (?so1, ?w1) = Returns (Inl errBadModificationIndex)"
    by blast
  moreover from T2 test_loop
  have "modificationLoop testExternals (settings testHost) (blockHeight testHost)
            ([insertZeroSector] @ insertZeroSector\<lparr>SectorIndex := 2\<rparr> # []) (testObligation, noWork)
          = (case applyModification testExternals (settings testHost) (blockHeight testHost)
                    (insertZeroSector\<lparr>SectorIndex := 2\<rparr>) (?so1, ?w1) of
               Returns (Inl e) \<Rightarrow> Returns (Some e, (?so1, ?w1))
             | Returns (Inr sw') \<Rightarrow> modificationLoop testExternals (settings testHost) (blockHeight testHost) [] sw'
             | Panics \<Rightarrow> Panics
             | Diverges \<Rightarrow> Diverges)"
    by blast
  ultimately have r2: "\<exists>sw. modificationLoop testExternals (settings testHost) (blockHeight testHost)
            ([insertZeroSector] @ insertZeroSector\<lparr>SectorIndex := 2\<rparr> # []) (testObligation, noWork)
          = Returns (Some errBadModificationIndex, sw)"
    by simp
  from T1 one obtain w' where "applyModification testExternals (settings testHost) (blockHeight testHost)
      (insertZeroSector\<lparr>SectorIndex := 1\<rparr>) (?so1, ?w1)
        = Returns (Inr (?so1\<lparr>SectorRoots := SectorRoots ?so1 @ [4097]\<rparr>, w'))"
    by metis
  moreover from T1 test_loop
  have "modificationLoop testExternals (settings testHost) (blockHeight testHost)
            ([insertZeroSector] @ insertZeroSector\<lparr>SectorIndex := 1\<rparr> # []) (testObligation, noWork)
          = (case applyModification testExternals (settings testHost) (blockHeight testHost)
                    (insertZeroSector\<lparr>SectorIndex := 1\<rparr>) (?so1, ?w1) of
               Returns (Inl e) \<Rightarrow> Returns (Some e, (?so1, ?w1))
             | Returns (Inr sw') \<Rightarrow> modificationLoop testExternals (settings testHost) (blockHeight testHost) [] sw'
             | Panics \<Rightarrow> Panics
             | Diverges \<Rightarrow> Diverges)"
    by blast
  ultimately have r1: "\<exists>w. modificationLoop testExternals (settings testHost) (blockHeight testHost)
            ([insertZeroSector] @ insertZeroSector\<lparr>SectorIndex := 1\<rparr> # []) (testObligation, noWork)
          = Returns (None, (testObligation\<lparr>SectorRoots := [4097, 4097]\<rparr>, w))"
    by simp
  have r3: "applyModification testExternals (settings testHost) (blockHeight testHost)
         (insertZeroSector\<lparr>SectorIndex := 1\<rparr>) (testObligation, noWork)
       = Returns (Inl errBadModificationIndex)"
    using first modification_index_check [of "insertZeroSector\<lparr>SectorIndex := 1\<rparr>" testObligation
        testExternals "settings testHost" "blockHeight testHost" noWork]
    by blast
  have r4: "applyModification testExternals (settings testHost) (blockHeight testHost)
         (insertZeroSector\<lparr>Type := ActionDelete\<rparr>) (testObligation, noWork)
       = Returns (Inl errBadModificationIndex)"
    using del modification_index_check [of "insertZeroSector\<lparr>Type := ActionDelete\<rparr>" testObligation
        testExternals "settings testHost" "blockHeight testHost" noWork]
    by blast
  from r1 r2 r3 r4 show ?thesis by blast
qed

lemma applyModification_ledger:
  assumes "applyModification ext hs height m (so, w) = Returns (Inr (so', w'))"
  shows "PotentialStorageRevenue so' = PotentialStorageRevenue so
       \<and> RiskedCollateral so' = RiskedCollateral so
       \<and> PotentialUploadRevenue so' = PotentialUploadRevenue so
       \<and> RevisionTransactionSet so' = RevisionTransactionSet so"
  using assms
  by (auto simp: applyModification_def Let_def split: if_splits ActionType.splits sum.splits)

lemma modificationLoop_ledger:
  assumes "modificationLoop ext hs height ms (so, w) = Returns (r, (so', w'))"
  shows "PotentialStorageRevenue so' = PotentialStorageRevenue so
       \<and> RiskedCollateral so' = RiskedCollateral so
       \<and> PotentialUploadRevenue so' = PotentialUploadRevenue so
       \<and> RevisionTransactionSet so' = RevisionTransactionSet so"
  using assms
proof (induction ms arbitrary: so w)
  case Nil
  then show ?case by simp
next
  case (Cons m ms)
  show ?case
  proof (cases "applyModification ext hs height m (so, w)")
    case (Returns x)
    show ?thesis
    proof (cases x)
      case (Inl e)
      with Returns Cons.prems show ?thesis by simp
    next
      case (Inr sw1)
      obtain so1 w1 where sw1: "sw1 = (so1, w1)" by (cases sw1)
      from Returns Inr sw1 Cons.prems
      have "modificationLoop ext hs height ms (so1, w1) = Returns (r, (so', w'))" by simp
      from Cons.IH [OF this] applyModification_ledger [of ext hs height m so w so1 w1]
      show ?thesis using Returns Inr sw1 by simp
    qed
  next
    case Panics
    with Cons.prems show ?thesis by simp
  next
    case Diverges
    with Cons.prems show ?thesis by simp
  qed
qed

lemma applyAndVerify_ledger:
  assumes "applyAndVerify ext hs height ms revision so = Returns (r, (so', w'))"
  shows "PotentialStorageRevenue so' = PotentialStorageRevenue so
       \<and> RiskedCollateral so' = RiskedCollateral so
       \<and> PotentialUploadRevenue so' = PotentialUploadRevenue so
       \<and> RevisionTransactionSet so' = RevisionTransactionSet so"
proof (cases "modificationLoop ext hs height ms (so, noWork)")
  case (Returns x)
  obtain r1 so1 w1 where x: "x = (r1, (so1, w1))" by (cases x) auto
  from assms Returns x have "so' = so1"
    by (auto simp: applyAndVerify_def Let_def split: option.splits outcome.splits)
  with modificationLoop_ledger [of ext hs height ms so noWork r1 so1 w1] Returns x
  show ?thesis by simp
next
  case Panics
  with assms show ?thesis by (simp add: applyAndVerify_def)
next
  case Diverges
  with assms show ?thesis by (simp add: applyAndVerify_def)
qed

text \<open>
  C2. When the settings have been sent and accepted and both objects have been read, and
  applying the modifications or \<open>verifyRevision\<close> fails with an error, the iteration
  sends a rejection with that error, returns the error under the prefix of the phase, and
  commits nothing: the list of commits, the three accumulators and the revision
  transaction set of the obligation are what they were.
\<close>

theorem rejected_iteration_keeps_durable_state:
  assumes "settingsResult io = None" and "acceptanceResult io = None"
    and "modificationsRead io = Inr modifications" and "revisionRead io = Inr revision"
    and "applyAndVerify ext (settings host) (blockHeight host) modifications revision
           (obligation st) = Returns (Some e, (so', w))"
  shows "\<exists>st'. managedRevisionIteration ext host io finalIter st
                 = Returns (Some (Extended ''rejected proposed modifications: '' e), st')
           \<and> sent st' = sent st @ [SentSettings, NegotiationRejection e]
           \<and> commits st' = commits st
           \<and> PotentialStorageRevenue (obligation st') = PotentialStorageRevenue (obligation st)
           \<and> PotentialUploadRevenue (obligation st') = PotentialUploadRevenue (obligation st)
           \<and> RiskedCollateral (obligation st') = RiskedCollateral (obligation st)
           \<and> RevisionTransactionSet (obligation st') = RevisionTransactionSet (obligation st)"
  using assms applyAndVerify_ledger [OF assms(5)]
  by (simp add: managedRevisionIteration_def Let_def extendErr_def)


lemma test_stale:
  "verifyRevision testExternals testObligation staleRevision 200 0 0
     = Returns (Some errBadRevisionNumber)"
  by (simp add: verifyRevision_def testObligation_def oldRevision_def testExternals_def
        staleRevision_def firstRevision_def)

lemma test_stale_apply:
  "applyAndVerify testExternals (settings testHost) (blockHeight testHost) [] staleRevision
     (obligation testState)
   = Returns (Some (Extended ''unable to verify revision: '' errBadRevisionNumber),
              (testObligation, noWork))"
  by (simp add: applyAndVerify_def testState_def test_values test_stale extendErr_def noWork_def)

theorem rejected_iteration_keeps_durable_state_witness:
  "\<exists>st'. managedRevisionIteration testExternals testHost staleAnswers False testState
            = Returns (Some (Extended ''rejected proposed modifications: ''
                         (Extended ''unable to verify revision: '' errBadRevisionNumber)), st')
         \<and> sent st' = [SentSettings,
               NegotiationRejection (Extended ''unable to verify revision: '' errBadRevisionNumber)]
         \<and> commits st' = []
         \<and> RevisionTransactionSet (obligation st') = RevisionTransactionSet testObligation"
proof -
  have a: "settingsResult staleAnswers = None" and b: "acceptanceResult staleAnswers = None"
    and c: "modificationsRead staleAnswers = Inr []"
    and d: "revisionRead staleAnswers = Inr staleRevision"
    by (simp_all add: staleAnswers_def testAnswers_def)
  show ?thesis
    using rejected_iteration_keeps_durable_state [OF a b c d test_stale_apply, of False]
    by (auto simp: testState_def)
qed

lemma signAndCommit_commit:
  assumes "signAndCommit ext host io revision w finalIter st = Returns (err, st')"
    and "commits st' \<noteq> commits st"
  shows "\<exists>txn renterSig c. renterSigRead io = Inr renterSig
           \<and> createRevisionSignature ext revision renterSig (secretKey host) (blockHeight host) = Inr txn
           \<and> modifyResult io = None
           \<and> commits st' = commits st @ [c]
           \<and> committedObligation c = obligation st'
           \<and> committedRemoved c = sectorsRemoved w
           \<and> committedGained c = sectorsGained w
           \<and> committedData c = gainedSectorData w
           \<and> RevisionTransactionSet (obligation st') = [txn]
           \<and> PotentialStorageRevenue (obligation st')
               = PotentialStorageRevenue (obligation st) + storageRevenue w
           \<and> RiskedCollateral (obligation st') = RiskedCollateral (obligation st) + newCollateral w
           \<and> PotentialUploadRevenue (obligation st')
               = PotentialUploadRevenue (obligation st) + bandwidthRevenue w"
  using assms
  by (auto simp: signAndCommit_def Let_def extendErr_def
        split: option.splits sum.splits if_splits)

text \<open>
  C9. An iteration that has committed has made exactly one commit, of the obligation it
  leaves behind, and the revision transaction set of that obligation is the one
  transaction that \<open>createRevisionSignature\<close> returned for the proposed revision and the
  renter's signature: its length is 1.
\<close>

theorem committed_iteration_revision_set:
  assumes "managedRevisionIteration ext host io finalIter st = Returns (err, st')"
    and "commits st' \<noteq> commits st"
  shows "\<exists>txn revision renterSig c.
           revisionRead io = Inr revision \<and> renterSigRead io = Inr renterSig
           \<and> createRevisionSignature ext revision renterSig (secretKey host) (blockHeight host) = Inr txn
           \<and> commits st' = commits st @ [c]
           \<and> committedObligation c = obligation st'
           \<and> RevisionTransactionSet (obligation st') = [txn]
           \<and> length (RevisionTransactionSet (obligation st')) = 1"
proof -
  from assms obtain revision so' w where
    rev: "revisionRead io = Inr revision"
    and sc: "signAndCommit ext host io revision w finalIter
              (st\<lparr>sent := sent st @ [SentSettings], obligation := so'\<rparr>) = Returns (err, st')"
    by (auto simp: managedRevisionIteration_def Let_def extendErr_def
          split: option.splits sum.splits outcome.splits prod.splits)
  from signAndCommit_commit [OF sc] assms(2) rev show ?thesis
    by auto
qed

text \<open>The scenario, step by step: the whole iteration goes through and commits.\<close>

lemma test_log2: "log2SectorSize testExternals = Some 6"
  unfolding log2SectorSize_def by code_simp

lemma test_merkle:
  "checkMerkleRoot testExternals (testObligation\<lparr>SectorRoots := [4097]\<rparr>) insertRevision
     = Returns None"
  by (simp add: checkMerkleRoot_def test_log2)
    (simp add: testExternals_def insertRevision_def)

lemma test_payments:
  "checkPayments firstRevision insertRevision 831488 409600 = Returns None"
  by (simp add: checkPayments_def outputValue_def firstRevision_def insertRevision_def)

lemma test_inserted:
  "oldRevision (testObligation\<lparr>SectorRoots := [4097]\<rparr>) = Some firstRevision"
  "expiration testExternals (testObligation\<lparr>SectorRoots := [4097]\<rparr>) = 250"
  "UnlockConditionsHash testExternals = of_nat"
  by (simp_all add: oldRevision_def testObligation_def testExternals_def firstRevision_def)

lemma test_verify:
  "verifyRevision testExternals (testObligation\<lparr>SectorRoots := [4097]\<rparr>) insertRevision 200
     831488 409600 = Returns None"
  by (simp add: verifyRevision_def paymentsThenRoot_def test_merkle test_payments test_inserted
        test_buffer test_counts test_values)
    (simp add: insertRevision_def firstRevision_def word_le_nat_alt)

lemma test_apply:
  "applyAndVerify testExternals (settings testHost) (blockHeight testHost) [insertZeroSector]
     insertRevision testObligation
   = Returns (None, (testObligation\<lparr>SectorRoots := [4097]\<rparr>,
        \<lparr>bandwidthRevenue = 12288, storageRevenue = 819200, newCollateral = 409600,
         sectorsRemoved = [], sectorsGained = [4097],
         gainedSectorData = [replicate 4096 0]\<rparr>))"
  unfolding applyAndVerify_def test_loop
  by (simp add: test_values test_verify extendErr_def)

lemma test_iteration:
  "managedRevisionIteration testExternals testHost testAnswers False testState
   = Returns (None,
       \<lparr>obligation = \<lparr>SectorRoots = [4097], PotentialStorageRevenue = 819200,
                       RiskedCollateral = 409600, PotentialUploadRevenue = 12288,
                       RevisionTransactionSet =
                         [\<lparr>FileContractRevisions = [insertRevision],
                           TransactionSignatures = [[3], [7]]\<rparr>]\<rparr>,
        commits = [\<lparr>committedObligation =
                      \<lparr>SectorRoots = [4097], PotentialStorageRevenue = 819200,
                       RiskedCollateral = 409600, PotentialUploadRevenue = 12288,
                       RevisionTransactionSet =
                         [\<lparr>FileContractRevisions = [insertRevision],
                           TransactionSignatures = [[3], [7]]\<rparr>]\<rparr>,
                    committedRemoved = [], committedGained = [4097],
                    committedData = [replicate 4096 0]\<rparr>],
        sent = [SentSettings, NegotiationAcceptance, NegotiationAcceptance, HostSignature [7]]\<rparr>)"
  by (simp add: managedRevisionIteration_def testAnswers_def testState_def test_apply
        signAndCommit_def Let_def)
    (simp add: testExternals_def testHost_def testObligation_def Let_def)

theorem committed_iteration_revision_set_witness:
  "\<exists>err st'. managedRevisionIteration testExternals testHost testAnswers False testState
                = Returns (err, st')
       \<and> commits st' \<noteq> commits testState
       \<and> RevisionTransactionSet (obligation st')
           = [\<lparr>FileContractRevisions = [insertRevision], TransactionSignatures = [[3], [7]]\<rparr>]
       \<and> length (RevisionTransactionSet (obligation st')) = 1"
proof -
  let ?st' = "\<lparr>obligation = \<lparr>SectorRoots = [4097], PotentialStorageRevenue = 819200,
                       RiskedCollateral = 409600, PotentialUploadRevenue = 12288,
                       RevisionTransactionSet =
                         [\<lparr>FileContractRevisions = [insertRevision],
                           TransactionSignatures = [[3], [7]]\<rparr>]\<rparr>,
        commits = [\<lparr>committedObligation =
                      \<lparr>SectorRoots = [4097], PotentialStorageRevenue = 819200,
                       RiskedCollateral = 409600, PotentialUploadRevenue = 12288,
                       RevisionTransactionSet =
                         [\<lparr>FileContractRevisions = [insertRevision],
                           TransactionSignatures = [[3], [7]]\<rparr>]\<rparr>,
                    committedRemoved = [], committedGained = [4097],
                    committedData = [replicate 4096 0]\<rparr>],
        sent = [SentSettings, NegotiationAcceptance, NegotiationAcceptance, HostSignature [7]]\<rparr>"
  have a: "managedRevisionIteration testExternals testHost testAnswers False testState
             = Returns (None, ?st')"
    by (rule test_iteration)
  have b: "commits ?st' \<noteq> commits testState"
    by (simp add: testState_def)
  from committed_iteration_revision_set [OF a b]
  have "length (RevisionTransactionSet (obligation ?st')) = 1"
    by blast
  with a b show ?thesis
    by (intro exI [of _ None] exI [of _ ?st']) simp
qed

section \<open>The height of the cached tree\<close>

text \<open>
  The fuel of \<open>log2SectorSize\<close> is enough: when the number of segments in a sector
  is at most \<open>2 ^ 63\<close> the loop returns, and when it is more no fuel lets it return.
\<close>

lemma log2Loop_None:
  "log2Loop n ratio k = None \<Longrightarrow> i < n \<Longrightarrow> push_bit (unat (k + of_nat i)) (1::uint64) < ratio"
proof (induction n arbitrary: k i)
  case 0
  then show ?case by simp
next
  case (Suc n)
  from Suc.prems(1) have now: "push_bit (unat k) (1::uint64) < ratio"
    and later: "log2Loop n ratio (k + 1) = None"
    by (auto split: if_splits)
  show ?case
  proof (cases i)
    case 0
    with now show ?thesis by simp
  next
    case (Suc j)
    with Suc.prems(2) have "j < n" by simp
    from Suc.IH [OF later this] Suc show ?thesis
      by (simp add: add.assoc)
  qed
qed

lemma log2SectorSize_returns:
  assumes "SectorSize ext div SegmentSize ext \<le> 2 ^ 63"
  shows "\<exists>k. log2SectorSize ext = Some k"
proof (rule ccontr)
  assume "\<not> (\<exists>k. log2SectorSize ext = Some k)"
  then have "log2Loop 65 (SectorSize ext div SegmentSize ext) 0 = None"
    by (simp add: log2SectorSize_def)
  from log2Loop_None [OF this, of 63]
  have "(2 ^ 63 :: uint64) < SectorSize ext div SegmentSize ext"
    by simp
  with assms show False by simp
qed

lemma push_bit_one_le: "push_bit m (1::uint64) \<le> 2 ^ 63"
proof (cases "m < 64")
  case True
  have small: "(2::nat) ^ m < 2 ^ 64"
    using True by (intro power_strict_increasing) simp_all
  have "unat (of_nat (2 ^ m) :: uint64) = 2 ^ m mod 2 ^ 64"
    by (simp only: unat_of_nat) simp
  with small have "unat (of_nat (2 ^ m) :: uint64) = 2 ^ m"
    by simp
  then have "unat (push_bit m (1::uint64)) = 2 ^ m"
    by (simp add: push_bit_eq_mult)
  moreover have "unat (2 ^ 63 :: uint64) = 2 ^ 63" by simp
  moreover have "(2::nat) ^ m \<le> 2 ^ 63"
    using True by (intro power_increasing) simp_all
  ultimately show ?thesis by (simp add: word_le_nat_alt)
next
  case False
  then have "push_bit m (1::uint64) = 0"
    by (intro push_bit_word_beyond) simp
  then show ?thesis
    by (metis word_zero_le)
qed

lemma log2Loop_never:
  assumes "2 ^ 63 < ratio"
  shows "log2Loop n ratio k = None"
proof (induction n arbitrary: k)
  case 0
  show ?case by simp
next
  case (Suc n)
  have "push_bit (unat k) (1::uint64) < ratio"
    using push_bit_one_le [of "unat k"] assms by simp
  with Suc show ?case by simp
qed

end
